theory Spec2Isabelle
  imports Complex_Main
begin

section \<open>Numbers, errors and configuration constants\<close>

text \<open>
  The engine is the block of functions in \<^verbatim>\<open>frontend/src/App.vue\<close> from
  \<^verbatim>\<open>JOINT_LIMITS_DEG\<close> to \<^verbatim>\<open>moveToTarget\<close>. JavaScript numbers are modelled
  as \<^typ>\<open>real\<close>: finite values without rounding. \<^verbatim>\<open>NaN\<close> and \<^verbatim>\<open>undefined\<close>
  are not reals; wherever the source can produce one of them (an array read past the end,
  a missing object key, a quotient \<^verbatim>\<open>0/0\<close>) the model writes the case out.
\<close>

datatype error = TypeError | ReferenceError

record limit =
  min_deg :: real
  max_deg :: real

definition JOINT_LIMITS_DEG :: "limit list" where
  "JOINT_LIMITS_DEG =
     [\<lparr>min_deg = -170, max_deg = 170\<rparr>,
      \<lparr>min_deg = -15, max_deg = 135\<rparr>,
      \<lparr>min_deg = 0, max_deg = 140\<rparr>,
      \<lparr>min_deg = -90, max_deg = 120\<rparr>,
      \<lparr>min_deg = -95, max_deg = 95\<rparr>,
      \<lparr>min_deg = -180, max_deg = 180\<rparr>]"

definition SHOULDER_ELBOW_MIN :: real where "SHOULDER_ELBOW_MIN = -110"
definition SHOULDER_ELBOW_MAX :: real where "SHOULDER_ELBOW_MAX = 160"
definition WRIST_COUPLED_LIMIT :: real where "WRIST_COUPLED_LIMIT = 190"
definition ELBOW_FORWARD_MAX :: real where "ELBOW_FORWARD_MAX = 145"

section \<open>Joint Safety Enforcer\<close>

text \<open>
  \<^verbatim>\<open>clamp(value, min, max)\<close>: \<^verbatim>\<open>Math.min(Math.max(value, min), max)\<close>. The
  \<^verbatim>\<open>Number.isNaN\<close> branch of the source cannot be entered by a real number.
\<close>

definition clamp :: "real \<Rightarrow> real \<Rightarrow> real \<Rightarrow> real" where
  "clamp val lo hi = min (max val lo) hi"

text \<open>
  The first line of \<^verbatim>\<open>enforceJointSafety\<close>:
  \<^verbatim>\<open>rawAnglesDeg.map((deg, idx) => clamp(deg, JOINT_LIMITS_DEG[idx].min, JOINT_LIMITS_DEG[idx].max))\<close>.
  At an index past the table \<^verbatim>\<open>JOINT_LIMITS_DEG[idx]\<close> is \<^verbatim>\<open>undefined\<close> and reading
  its \<^verbatim>\<open>.min\<close> throws a TypeError.
\<close>

fun clamp_each :: "nat \<Rightarrow> real list \<Rightarrow> error + real list" where
  "clamp_each idx [] = Inr []"
| "clamp_each idx (deg # rest) =
     (if idx < length JOINT_LIMITS_DEG then
        (case clamp_each (Suc idx) rest of
           Inl e \<Rightarrow> Inl e
         | Inr safe \<Rightarrow>
             Inr (clamp deg (min_deg (JOINT_LIMITS_DEG ! idx)) (max_deg (JOINT_LIMITS_DEG ! idx)) # safe))
      else Inl TypeError)"

text \<open>
  The three coupling blocks. On an array shorter than the indices a block reads, the
  operands are \<^verbatim>\<open>undefined\<close>, the sums are \<^verbatim>\<open>NaN\<close>, every comparison is false
  and the block changes nothing: that is the length test in front of each block.
\<close>

definition couple_shoulder_elbow :: "real list \<Rightarrow> real list" where
  "couple_shoulder_elbow safe =
     (if length safe \<le> 2 then safe
      else
        let shoulderElbow = safe ! 1 + safe ! 2 in
        if shoulderElbow < SHOULDER_ELBOW_MIN then
          safe[2 := clamp (SHOULDER_ELBOW_MIN - safe ! 1)
                      (min_deg (JOINT_LIMITS_DEG ! 2)) (max_deg (JOINT_LIMITS_DEG ! 2))]
        else if shoulderElbow > SHOULDER_ELBOW_MAX then
          safe[2 := clamp (SHOULDER_ELBOW_MAX - safe ! 1)
                      (min_deg (JOINT_LIMITS_DEG ! 2)) (max_deg (JOINT_LIMITS_DEG ! 2))]
        else safe)"

definition elbow_cap_taken :: "real list \<Rightarrow> bool" where
  "elbow_cap_taken safe = (2 < length safe \<and> safe ! 2 > ELBOW_FORWARD_MAX)"

definition cap_elbow_forward :: "real list \<Rightarrow> real list" where
  "cap_elbow_forward safe =
     (if elbow_cap_taken safe then safe[2 := ELBOW_FORWARD_MAX] else safe)"

definition wrist_reduced :: "real list \<Rightarrow> nat \<Rightarrow> real" where
  \<comment> \<open>\<^verbatim>\<open>safe[k] - Math.sign(safe[k]) * reduction\<close>, the value before the re-clamp\<close>
  "wrist_reduced safe k =
     (let wristCombined = \<bar>safe ! 3\<bar> + \<bar>safe ! 4\<bar>;
          excess = wristCombined - WRIST_COUPLED_LIMIT;
          reduction = excess / 2
      in safe ! k - sgn (safe ! k) * reduction)"

definition couple_wrist :: "real list \<Rightarrow> real list" where
  "couple_wrist safe =
     (if length safe \<le> 4 then safe
      else
        let wristCombined = \<bar>safe ! 3\<bar> + \<bar>safe ! 4\<bar> in
        if wristCombined > WRIST_COUPLED_LIMIT then
          (safe[3 := clamp (wrist_reduced safe 3)
                       (min_deg (JOINT_LIMITS_DEG ! 3)) (max_deg (JOINT_LIMITS_DEG ! 3))])
               [4 := clamp (wrist_reduced safe 4)
                       (min_deg (JOINT_LIMITS_DEG ! 4)) (max_deg (JOINT_LIMITS_DEG ! 4))]
        else safe)"

definition enforceJointSafety :: "real list \<Rightarrow> error + real list" where
  "enforceJointSafety rawAnglesDeg =
     (case clamp_each 0 rawAnglesDeg of
        Inl e \<Rightarrow> Inl e
      | Inr safe \<Rightarrow> Inr (couple_wrist (cap_elbow_forward (couple_shoulder_elbow safe))))"

definition within_joint_limits :: "real list \<Rightarrow> bool" where
  "within_joint_limits v =
     (\<forall>i < length JOINT_LIMITS_DEG.
        min_deg (JOINT_LIMITS_DEG ! i) \<le> v ! i \<and> v ! i \<le> max_deg (JOINT_LIMITS_DEG ! i))"


section \<open>Angle objects\<close>

text \<open>
  The angle objects \<^verbatim>\<open>{joint1, ..., joint6}\<close>. A field is \<open>None\<close> where the JavaScript
  value is \<^verbatim>\<open>undefined\<close> (an array read past the end in \<^verbatim>\<open>mapAnglesArrayToObject\<close>,
  a key missing from the object). The object itself may be \<^verbatim>\<open>null\<close> or \<^verbatim>\<open>undefined\<close>
  (\<^verbatim>\<open>angleObj?.joint1\<close>): that is \<open>None\<close> at the level of the object.
\<close>

record angles =
  joint1 :: "real option"
  joint2 :: "real option"
  joint3 :: "real option"
  joint4 :: "real option"
  joint5 :: "real option"
  joint6 :: "real option"

definition nullish_or_zero :: "real option \<Rightarrow> real" where
  \<comment> \<open>\<^verbatim>\<open>v ?? 0\<close>, and also \<^verbatim>\<open>v || 0\<close> on a number or \<^verbatim>\<open>undefined\<close>\<close>
  "nullish_or_zero v = (case v of None \<Rightarrow> 0 | Some r \<Rightarrow> r)"

definition array_read :: "real list \<Rightarrow> nat \<Rightarrow> real option" where
  \<comment> \<open>\<^verbatim>\<open>arr[i]\<close>: \<^verbatim>\<open>undefined\<close> past the end\<close>
  "array_read arr i = (if i < length arr then Some (arr ! i) else None)"

definition mapAnglesObjectToArray :: "angles option \<Rightarrow> real list" where
  "mapAnglesObjectToArray angleObj =
     (case angleObj of
        None \<Rightarrow> [0, 0, 0, 0, 0, 0]
      | Some a \<Rightarrow>
          [nullish_or_zero (joint1 a), nullish_or_zero (joint2 a), nullish_or_zero (joint3 a),
           nullish_or_zero (joint4 a), nullish_or_zero (joint5 a), nullish_or_zero (joint6 a)])"

definition mapAnglesArrayToObject :: "real list \<Rightarrow> angles" where
  "mapAnglesArrayToObject angleArray =
     \<lparr>joint1 = array_read angleArray 0, joint2 = array_read angleArray 1,
      joint3 = array_read angleArray 2, joint4 = array_read angleArray 3,
      joint5 = array_read angleArray 4, joint6 = array_read angleArray 5\<rparr>"

text \<open>
  Arithmetic and comparison on a number that may be \<^verbatim>\<open>undefined\<close>: a sum or absolute
  value involving \<^verbatim>\<open>undefined\<close> is \<^verbatim>\<open>NaN\<close> (again \<open>None\<close>), and every comparison
  with \<^verbatim>\<open>undefined\<close> or \<^verbatim>\<open>NaN\<close> is false.
\<close>

definition num_add :: "real option \<Rightarrow> real option \<Rightarrow> real option" where
  "num_add a b = (case (a, b) of (Some p, Some q) \<Rightarrow> Some (p + q) | _ \<Rightarrow> None)"

definition num_abs :: "real option \<Rightarrow> real option" where
  "num_abs a = (case a of Some p \<Rightarrow> Some \<bar>p\<bar> | None \<Rightarrow> None)"

definition num_lt :: "real option \<Rightarrow> real \<Rightarrow> bool" where
  "num_lt a b = (case a of Some p \<Rightarrow> p < b | None \<Rightarrow> False)"

definition num_gt :: "real option \<Rightarrow> real \<Rightarrow> bool" where
  "num_gt a b = (case a of Some p \<Rightarrow> p > b | None \<Rightarrow> False)"

section \<open>Approximate forward kinematics\<close>

definition DEG2RAD :: real where "DEG2RAD = pi / 180"

record link_lengths =
  baseHeight :: real
  shoulder :: real
  upperArm :: real
  forearm :: real
  wrist :: real
  flange :: real

definition LINK_LENGTHS_M :: link_lengths where
  "LINK_LENGTHS_M =
     \<lparr>baseHeight = 0.044, shoulder = 0.0215, upperArm = 0.0827,
      forearm = 0.0450, wrist = 0.0392, flange = 0.0540\<rparr>"

definition BASE_RADIUS_M :: real where "BASE_RADIUS_M = 0.09"
definition BASE_CLEARANCE_M :: real where "BASE_CLEARANCE_M = 0.02"

datatype key_label = Elbow | Wrist | EndEffector

record key_point =
  pt_label :: key_label
  pt_x :: real
  pt_y :: real
  pt_z :: real
  pt_radial :: real

text \<open>
  The \<^verbatim>\<open>for\<close> loop of \<^verbatim>\<open>computeForwardPositions\<close> over the three segments, with its
  two running sums \<^verbatim>\<open>radial\<close> and \<^verbatim>\<open>height\<close>.
\<close>

fun forward_loop :: "real \<Rightarrow> (key_label \<times> real \<times> real) list \<Rightarrow> real \<Rightarrow> real \<Rightarrow> key_point list" where
  "forward_loop baseYaw [] radial height = []"
| "forward_loop baseYaw ((lab, len, pitch) # rest) radial height =
     (let radial' = radial + sin pitch * len;
          height' = height + cos pitch * len;
          x = radial' * cos baseYaw;
          y = radial' * sin baseYaw;
          r = sqrt (x * x + y * y)
      in \<lparr>pt_label = lab, pt_x = x, pt_y = y, pt_z = height', pt_radial = r\<rparr>
           # forward_loop baseYaw rest radial' height')"

definition computeForwardPositions :: "angles \<Rightarrow> key_point list" where
  "computeForwardPositions a =
     (let baseYaw = nullish_or_zero (joint1 a) * DEG2RAD;
          shoulderPitch = nullish_or_zero (joint2 a) * DEG2RAD;
          elbowPitch = nullish_or_zero (joint3 a) * DEG2RAD;
          wristPitch = nullish_or_zero (joint4 a) * DEG2RAD;
          segmentLengths =
            [shoulder LINK_LENGTHS_M + upperArm LINK_LENGTHS_M,
             forearm LINK_LENGTHS_M,
             wrist LINK_LENGTHS_M + flange LINK_LENGTHS_M];
          cumulativePitches =
            [shoulderPitch, shoulderPitch + elbowPitch, shoulderPitch + elbowPitch + wristPitch];
          labels = [Elbow, Wrist, EndEffector]
      in forward_loop baseYaw (zip labels (zip segmentLengths cumulativePitches))
           0 (baseHeight LINK_LENGTHS_M))"

section \<open>Requests and log messages\<close>

text \<open>
  A keyframe of a gesture (angles in degrees, duration in milliseconds, an optional gripper
  state) and a sequence of keyframes; the display name of a sequence is not ASCII, appears
  only in two log texts and is left out. \<open>play_arg\<close> is the argument of
  \<^verbatim>\<open>playActionSequence\<close>: a string, or else a sequence object (\<open>None\<close> for a falsy
  value). \<open>ik_error\<close> is the message of the error that \<^verbatim>\<open>callIK\<close> throws: the text of
  the failed request or of the reply, the fixed default text, or the text of an internal
  exception.
\<close>

record keyframe =
  kf_angles :: "real list"
  kf_duration :: real
  kf_gripper :: "bool option"

record sequence =
  keyframes :: "keyframe list"

datatype play_arg = ByName string | ByObject "sequence option"

datatype ik_error = Message string | DefaultMessage | Internal error

datatype source = DefaultSource | ManualControl | KeyframeNumber nat
  \<comment> \<open>the second argument of \<^verbatim>\<open>getSafeAngles\<close>: its default, the text passed by
      \<^verbatim>\<open>updateRobotJoints\<close>, and the backquoted \<^verbatim>\<open>#${i+1}\<close> text of a keyframe\<close>

text \<open>
  The log is the sequence of calls of \<^verbatim>\<open>addLog\<close>, one constructor for each call site of
  the engine. A constructor carries the values that the message expression of the source
  concatenates into the text. Several messages are written in single or double quotes with
  \<^verbatim>\<open>${...}\<close> inside: JavaScript interpolates only inside backquotes, so those
  placeholders are literal text and their values are not part of the message. (What
  \<^verbatim>\<open>addLog\<close> then does with a message, the display list and its rate limit, belongs to
  the user interface.)
\<close>

datatype log_msg =
    JointLimitTriggered real
      \<comment> \<open>line 986; the text ends in \<^verbatim>\<open>' + limit.max + ']'\<close>\<close>
  | SumBelowMin real
      \<comment> \<open>line 993; carries \<^verbatim>\<open>SHOULDER_ELBOW_MIN\<close>\<close>
  | SumAboveMax real
      \<comment> \<open>line 997; carries \<^verbatim>\<open>SHOULDER_ELBOW_MAX\<close>\<close>
  | ElbowForward real
      \<comment> \<open>line 1002; carries \<^verbatim>\<open>ELBOW_FORWARD_MAX\<close>\<close>
  | WristCombined real
      \<comment> \<open>line 1008; carries \<^verbatim>\<open>WRIST_COUPLED_LIMIT\<close>\<close>
  | BelowGround real
      \<comment> \<open>line 966; carries \<^verbatim>\<open>point.z * 1000\<close> (before \<^verbatim>\<open>toFixed(0)\<close>)\<close>
  | NearBase real
      \<comment> \<open>line 971; carries \<^verbatim>\<open>BASE_RADIUS_M * 1000\<close>\<close>
  | OutOfSafeRange source
      \<comment> \<open>line 904, \<^verbatim>\<open>getSafeAngles\<close>: the command is cancelled\<close>
  | UnknownAction play_arg
      \<comment> \<open>line 1029\<close>
  | SequenceInProgress
      \<comment> \<open>line 1034\<close>
  | SequenceStarted
      \<comment> \<open>line 1040\<close>
  | GripperText
      \<comment> \<open>line 1059; \<^verbatim>\<open>'...' + keyframe.gripper ? a : b\<close> parses as
          \<^verbatim>\<open>('...' + keyframe.gripper) ? a : b\<close>, the same text for both states\<close>
  | SequenceDone
      \<comment> \<open>line 1092\<close>
  | SequenceFailed error
      \<comment> \<open>line 1094\<close>
  | PlanningPath real
      \<comment> \<open>line 1639; only \<^verbatim>\<open>z.toFixed(3)\<close> is concatenated\<close>
  | GeneratedPoints nat
      \<comment> \<open>line 1648; carries \<^verbatim>\<open>path3D.length\<close>\<close>
  | PathPointCollision nat
      \<comment> \<open>line 1659; \<^verbatim>\<open>'...' + i + '...'\<close> carries the index\<close>
  | PathPointIKFailed ik_error
      \<comment> \<open>line 1666; \<^verbatim>\<open>'...${i}IKfailed: ' + e.message\<close> carries the message only\<close>
  | IKComplete
      \<comment> \<open>line 1675\<close>
  | Arrived
      \<comment> \<open>line 1681\<close>
  | PlanFailed error
      \<comment> \<open>line 1690\<close>

section \<open>Collision Validator\<close>

text \<open>
  A validator returns its \<^verbatim>\<open>risk\<close> flag together with the log messages it has written,
  in their order.
\<close>

type_synonym verdict = "bool \<times> log_msg list"

definition flag :: "log_msg \<Rightarrow> verdict \<Rightarrow> verdict" where
  \<comment> \<open>\<^verbatim>\<open>addLog(msg, ...); risk = true\<close>\<close>
  "flag msg v = (True, snd v @ [msg])"

definition check_point :: "verdict \<Rightarrow> key_point \<Rightarrow> verdict" where
  \<comment> \<open>the body of \<^verbatim>\<open>points.forEach\<close> in \<^verbatim>\<open>geometryCollisionCheck\<close>\<close>
  "check_point v point =
     (let baseSafeHeight = baseHeight LINK_LENGTHS_M + BASE_CLEARANCE_M;
          v1 = (if pt_z point < - 0.005 then flag (BelowGround (pt_z point * 1000)) v else v)
      in if pt_z point < baseSafeHeight \<and> pt_radial point < BASE_RADIUS_M
         then flag (NearBase (BASE_RADIUS_M * 1000)) v1 else v1)"

definition geometryCollisionCheck :: "angles \<Rightarrow> verdict" where
  "geometryCollisionCheck a = foldl check_point (False, []) (computeForwardPositions a)"

text \<open>
  \<^verbatim>\<open>Object.entries(angles).forEach(([key, value], idx) => ...)\<close>: the entries come in
  the order of the keys \<^verbatim>\<open>joint1 ... joint6\<close>; an index without a limit is skipped.
\<close>

fun check_entries :: "nat \<Rightarrow> real option list \<Rightarrow> verdict \<Rightarrow> verdict" where
  "check_entries idx [] v = v"
| "check_entries idx (val # rest) v =
     (if idx < length JOINT_LIMITS_DEG then
        (let limit = JOINT_LIMITS_DEG ! idx in
         if num_lt val (min_deg limit) \<or> num_gt val (max_deg limit)
         then check_entries (Suc idx) rest (flag (JointLimitTriggered (max_deg limit)) v)
         else check_entries (Suc idx) rest v)
      else check_entries (Suc idx) rest v)"

definition quickCollisionCheck :: "angles \<Rightarrow> verdict" where
  "quickCollisionCheck a =
     (let v0 = check_entries 0 [joint1 a, joint2 a, joint3 a, joint4 a, joint5 a, joint6 a]
                 (False, []);
          sumShoulderElbow = num_add (joint2 a) (joint3 a);
          v1 = (if num_lt sumShoulderElbow SHOULDER_ELBOW_MIN
                then flag (SumBelowMin SHOULDER_ELBOW_MIN) v0 else v0);
          v2 = (if num_gt sumShoulderElbow SHOULDER_ELBOW_MAX
                then flag (SumAboveMax SHOULDER_ELBOW_MAX) v1 else v1);
          v3 = (if num_gt (joint3 a) ELBOW_FORWARD_MAX
                then flag (ElbowForward ELBOW_FORWARD_MAX) v2 else v2);
          wristCombined = num_add (num_abs (joint4 a)) (num_abs (joint5 a));
          v4 = (if num_gt wristCombined WRIST_COUPLED_LIMIT
                then flag (WristCombined WRIST_COUPLED_LIMIT) v3 else v3);
          g = geometryCollisionCheck a
      in (fst v4 \<or> fst g, snd v4 @ snd g))"

record safe_angles =
  deg :: angles
  rad :: "real list"

definition getSafeAngles ::
  "angles option \<Rightarrow> source \<Rightarrow> error + (safe_angles option \<times> log_msg list)" where
  "getSafeAngles angleObj src =
     (let rawArray = mapAnglesObjectToArray angleObj in
      case enforceJointSafety rawArray of
        Inl e \<Rightarrow> Inl e
      | Inr safeArray \<Rightarrow>
          let safeObj = mapAnglesArrayToObject safeArray;
              v = quickCollisionCheck safeObj
          in if fst v then Inr (None, snd v @ [OutOfSafeRange src])
             else Inr (Some \<lparr>deg = safeObj, rad = map (\<lambda>d. d * DEG2RAD) safeArray\<rparr>, snd v))"

section \<open>Cartesian line sampling\<close>

record point =
  cx :: real
  cy :: real
  cz :: real

text \<open>
  One pass of the loop body of \<^verbatim>\<open>sampleLinePath\<close>. For \<^verbatim>\<open>samples = 0\<close> the parameter
  \<^verbatim>\<open>t = 0 / 0\<close> is \<^verbatim>\<open>NaN\<close> and so are the three coordinates: that point is \<open>None\<close>.
\<close>

definition sample_point :: "point \<Rightarrow> point \<Rightarrow> real \<Rightarrow> nat \<Rightarrow> point option" where
  "sample_point start endp samples i =
     (if samples = 0 then None
      else
        let t = real i / samples in
        Some \<lparr>cx = cx start + (cx endp - cx start) * t,
              cy = cy start + (cy endp - cy start) * t,
              cz = cz start + (cz endp - cz start) * t\<rparr>)"

function sample_loop :: "point \<Rightarrow> point \<Rightarrow> real \<Rightarrow> nat \<Rightarrow> point option list \<Rightarrow> point option list" where
  "sample_loop start endp samples i path =
     (if real i \<le> samples
      then sample_loop start endp samples (Suc i) (path @ [sample_point start endp samples i])
      else path)"
  by pat_completeness auto
termination
  by (relation "measure (\<lambda>(start, endp, samples, i, path). nat \<lfloor>samples\<rfloor> + 1 - i)")
     (auto dest!: le_nat_floor)

definition sampleLinePath :: "point \<Rightarrow> point \<Rightarrow> real \<Rightarrow> point option list" where
  "sampleLinePath start endp samples = sample_loop start endp samples 0 []"

section \<open>Readings of a verdict and two test poses\<close>


definition is_ground_violation :: "log_msg \<Rightarrow> bool" where
  "is_ground_violation m = (case m of BelowGround _ \<Rightarrow> True | _ \<Rightarrow> False)"

definition pose_below_ground :: angles where
  \<comment> \<open>inside every joint range and every coupling rule; the end-effector is 2.6 mm under the floor\<close>
  "pose_below_ground = \<lparr>joint1 = Some 0, joint2 = Some 90, joint3 = Some 0, joint4 = Some 30,
     joint5 = Some 0, joint6 = Some 0\<rparr>"

definition pose_folded :: angles where
  \<comment> \<open>the arm pointing straight down through the floor\<close>
  "pose_folded = \<lparr>joint1 = Some 0, joint2 = Some 180, joint3 = Some 0, joint4 = Some 0,
     joint5 = Some 0, joint6 = Some 0\<rparr>"

section \<open>Shared state and hardware dispatch\<close>

text \<open>
  The module-level state the engine reads and writes. \<open>targetAngles\<close> is the commanded
  joint vector, in radians. \<open>endEffectorPos\<close> holds the three coordinates after
  \<^verbatim>\<open>parseFloat\<close>. \<open>wsOpen\<close> stands for \<^verbatim>\<open>ws && ws.readyState === WebSocket.OPEN\<close>.
  \<open>sent\<close> is the sequence of \<^verbatim>\<open>ws.send\<close> calls and \<open>ikCalls\<close> the sequence of requests
  to the inverse-kinematics service. \<open>rafQueue\<close> holds the \<^verbatim>\<open>interpolate\<close> closures of
  \<^verbatim>\<open>updateRobotJoints\<close> that are registered with \<^verbatim>\<open>requestAnimationFrame\<close>, in the
  order of registration. (The handle variable \<^verbatim>\<open>animationFrame\<close> is written by the
  sequence player and read only by \<^verbatim>\<open>stopActionSequence\<close>; it is left out.)
\<close>

record trajectory =
  startAngles :: "real list"
  goalAngles :: "real list"
  startTime :: real
  duration :: real

datatype command = MoveToAngles "real list" | MoveToPosition point

datatype ws_message = SetTarget "real list" | Forward command

record state =
  targetAngles :: "real list"
  targetEndEffectorPos :: "point option"
  endEffectorPos :: point
  connected :: bool
  wsOpen :: bool
  isPlayingSequence :: bool
  currentSequence :: "string option"
  gripperOpen :: bool
  log :: "log_msg list"
  sent :: "ws_message list"
  ikCalls :: "point option list"
  rafQueue :: "trajectory list"

definition addLog :: "log_msg \<Rightarrow> state \<Rightarrow> state" where
  "addLog msg s = s\<lparr>log := log s @ [msg]\<rparr>"

definition addLogs :: "log_msg list \<Rightarrow> state \<Rightarrow> state" where
  \<comment> \<open>the calls of \<^verbatim>\<open>addLog\<close> made inside a validator, in their order\<close>
  "addLogs msgs s = s\<lparr>log := log s @ msgs\<rparr>"

definition sendCommand :: "command \<Rightarrow> state \<Rightarrow> state" where
  "sendCommand cmd s =
     (if connected s \<and> wsOpen s then
        (case cmd of
           MoveToAngles _ \<Rightarrow>
             s\<lparr>sent := sent s @
                [SetTarget (case targetEndEffectorPos s of
                              Some p \<Rightarrow> [cx p, cy p, cz p]
                            | None \<Rightarrow> [0.1, - 0.2, 0.3])]\<rparr>
         | MoveToPosition _ \<Rightarrow> s\<lparr>sent := sent s @ [Forward cmd]\<rparr>)
      else s)"

text \<open>
  What a run of a function ends in. \<open>Returned\<close>: it ran to its end (for an
  \<^verbatim>\<open>async\<close> function, its promise resolved). \<open>Threw\<close>: an exception left it.
  \<open>Waiting\<close>: an \<^verbatim>\<open>async\<close> function is suspended at an \<^verbatim>\<open>await\<close> and the clock
  readings supplied are used up. \<open>NotANumber\<close>: the source stores \<^verbatim>\<open>NaN\<close> or an
  infinity in \<open>targetAngles\<close>, which a list of reals cannot hold.
\<close>

datatype outcome = Returned state | Threw error state | Waiting state | NotANumber

section \<open>Trajectory Executor\<close>

text \<open>
  Time. \<^verbatim>\<open>Date.now()\<close> does not advance within one synchronous run: the reading of a
  run is the argument \<open>now\<close>. An \<^verbatim>\<open>async\<close> function is modelled on its own, without
  other handlers running between its steps; its argument \<open>clock\<close> lists the readings of
  its successive runs (the call, then each animation frame or timer that resumes it).

  \<^verbatim>\<open>Math.min(elapsed / duration, 1)\<close>: for \<^verbatim>\<open>duration = 0\<close> the quotient is
  \<^verbatim>\<open>Infinity\<close> (progress 1) for a positive \<^verbatim>\<open>elapsed\<close>, and otherwise
  \<^verbatim>\<open>NaN\<close> or \<^verbatim>\<open>-Infinity\<close>: \<open>None\<close>.
\<close>

definition progress_at :: "real \<Rightarrow> real \<Rightarrow> real option" where
  "progress_at elapsed dur =
     (if dur = 0 then (if 0 < elapsed then Some 1 else None)
      else Some (min (elapsed / dur) 1))"

definition easeInOutCubic :: "real \<Rightarrow> real" where
  "easeInOutCubic t = (if t < 0.5 then 4 * t * t * t else 1 - (- 2 * t + 2) ^ 3 / 2)"

definition lerp_angles :: "real list \<Rightarrow> real list \<Rightarrow> real \<Rightarrow> real list option" where
  \<comment> \<open>\<^verbatim>\<open>startAngles.map((start, i) => start + (goalAngles[i] - start) * eased)\<close>; an entry
      past the end of \<^verbatim>\<open>goalAngles\<close> would be \<^verbatim>\<open>NaN\<close>\<close>
  "lerp_angles starts goals eased =
     (if length starts \<le> length goals
      then Some (map (\<lambda>(start, goal). start + (goal - start) * eased) (zip starts goals))
      else None)"

definition interpolate :: "trajectory \<Rightarrow> real \<Rightarrow> state \<Rightarrow> outcome" where
  \<comment> \<open>one call of the closure \<^verbatim>\<open>interpolate\<close> of \<^verbatim>\<open>updateRobotJoints\<close>\<close>
  "interpolate tr now s =
     (let elapsed = now - startTime tr in
      case progress_at elapsed (duration tr) of
        None \<Rightarrow> NotANumber
      | Some progress \<Rightarrow>
          let eased = (if progress < 0.5 then 4 * progress * progress * progress
                       else 1 - (- 2 * progress + 2) ^ 3 / 2)
          in case lerp_angles (startAngles tr) (goalAngles tr) eased of
               None \<Rightarrow> NotANumber
             | Some interpolated \<Rightarrow>
                 let s1 = s\<lparr>targetAngles := interpolated\<rparr> in
                 if progress < 1 then Returned (s1\<lparr>rafQueue := rafQueue s1 @ [tr]\<rparr>)
                 else if connected s1 then Returned (sendCommand (MoveToAngles (goalAngles tr)) s1)
                 else Returned s1)"

definition updateRobotJoints :: "angles option \<Rightarrow> real \<Rightarrow> real \<Rightarrow> state \<Rightarrow> outcome" where
  "updateRobotJoints angs dur now s =
     (case getSafeAngles angs ManualControl of
        Inl e \<Rightarrow> Threw e s
      | Inr (None, msgs) \<Rightarrow> Returned (addLogs msgs s)
      | Inr (Some safe, msgs) \<Rightarrow>
          let s1 = addLogs msgs s;
              goal = rad safe;
              tr = \<lparr>startAngles = targetAngles s1, goalAngles = goal,
                    startTime = now, duration = dur\<rparr>
          in interpolate tr now s1)"

text \<open>
  One animation frame at clock reading \<open>now\<close>: the browser runs the callbacks registered
  before the frame, in the order of their registration; a callback registered during the
  frame runs in the next one.
\<close>

fun run_callbacks :: "trajectory list \<Rightarrow> real \<Rightarrow> state \<Rightarrow> outcome" where
  "run_callbacks [] now s = Returned s"
| "run_callbacks (tr # rest) now s =
     (case interpolate tr now s of
        Returned s1 \<Rightarrow> run_callbacks rest now s1
      | other \<Rightarrow> other)"

definition animation_frame :: "real \<Rightarrow> state \<Rightarrow> outcome" where
  "animation_frame now s = run_callbacks (rafQueue s) now (s\<lparr>rafQueue := []\<rparr>)"

section \<open>Action Sequence Player\<close>

text \<open>
  The library \<^verbatim>\<open>actionLibrary\<close>, without the display names (they are not ASCII and only
  appear in log texts).
\<close>

definition kf :: "real list \<Rightarrow> real \<Rightarrow> keyframe" where
  "kf a d = \<lparr>kf_angles = a, kf_duration = d, kf_gripper = None\<rparr>"

definition kfg :: "real list \<Rightarrow> real \<Rightarrow> bool \<Rightarrow> keyframe" where
  "kfg a d g = \<lparr>kf_angles = a, kf_duration = d, kf_gripper = Some g\<rparr>"

definition actionLibrary :: "string \<Rightarrow> sequence option" where
  "actionLibrary = map_of
     [(''wave'', \<lparr>keyframes =
         [kf [0, -30, 45, 0, -15, 0] 1000, kf [15, -30, 45, 0, -15, 30] 500,
          kf [-15, -30, 45, 0, -15, -30] 500, kf [15, -30, 45, 0, -15, 30] 500,
          kf [0, 0, 0, 0, 0, 0] 1000]\<rparr>),
      (''grab_demo'', \<lparr>keyframes =
         [kf [0, -20, 30, 0, -10, 0] 1000, kf [0, -45, 60, 0, -15, 0] 800,
          kfg [0, -45, 60, 0, -15, 0] 300 False, kf [0, -20, 30, 0, -10, 0] 800,
          kf [45, -20, 30, 0, -10, 45] 1000, kf [45, -45, 60, 0, -15, 45] 800,
          kfg [45, -45, 60, 0, -15, 45] 300 True, kf [0, 0, 0, 0, 0, 0] 1200]\<rparr>),
      (''dance'', \<lparr>keyframes =
         [kf [0, -30, 30, 0, 0, 0] 500, kf [30, -30, 30, 30, 0, 30] 400,
          kf [-30, -30, 30, -30, 0, -30] 400, kf [30, -30, 30, 30, 0, 30] 400,
          kf [0, 0, 60, 0, -60, 0] 600, kf [0, 0, 0, 0, 0, 0] 800]\<rparr>),
      (''spin'', \<lparr>keyframes =
         [kf [179, 0, 0, 0, 0, 0] 2000, kf [-179, 0, 0, 0, 0, 0] 4000,
          kf [0, 0, 0, 0, 0, 0] 2000]\<rparr>),
      (''nod'', \<lparr>keyframes =
         [kf [0, 0, 0, 0, 30, 0] 300, kf [0, 0, 0, 0, -20, 0] 300,
          kf [0, 0, 0, 0, 30, 0] 300, kf [0, 0, 0, 0, 0, 0] 300]\<rparr>),
      (''greet'', \<lparr>keyframes =
         [kf [0, -40, 50, 0, -10, 0] 800, kf [0, -40, 50, 0, -10, 30] 300,
          kf [0, -40, 50, 0, -10, -30] 300, kf [0, -40, 50, 0, -10, 30] 300,
          kf [0, -40, 50, 0, -10, 0] 300, kf [0, 0, 0, 0, 0, 0] 1000]\<rparr>)]"

text \<open>
  The closure \<^verbatim>\<open>animate\<close> of one keyframe, called once in the run that starts the
  keyframe and then once per animation frame until \<^verbatim>\<open>progress\<close> reaches 1. It returns
  the clock readings that are left.
\<close>

fun animate :: "real list \<Rightarrow> real list \<Rightarrow> real \<Rightarrow> real \<Rightarrow> real list \<Rightarrow> state \<Rightarrow> outcome \<times> real list" where
  "animate starts ends t0 dur [] s = (Waiting s, [])"
| "animate starts ends t0 dur (now # clock) s =
     (let elapsed = now - t0 in
      case progress_at elapsed dur of
        None \<Rightarrow> (NotANumber, clock)
      | Some progress \<Rightarrow>
          let easedProgress = easeInOutCubic progress in
          case lerp_angles starts ends easedProgress of
            None \<Rightarrow> (NotANumber, clock)
          | Some interpolatedAngles \<Rightarrow>
              let s1 = s\<lparr>targetAngles := interpolatedAngles\<rparr> in
              if progress < 1 then animate starts ends t0 dur clock s1
              else (Returned s1, clock))"

text \<open>
  The \<^verbatim>\<open>for\<close> loop over the keyframes, from keyframe \<open>i\<close> on. The head of \<open>clock\<close> is the
  reading of the run in which keyframe \<open>i\<close> starts: the call for \<open>i = 0\<close>, the 50 ms timer
  otherwise.
\<close>

fun play_keyframes :: "nat \<Rightarrow> keyframe list \<Rightarrow> real list \<Rightarrow> state \<Rightarrow> outcome" where
  "play_keyframes i [] clock s = Returned (addLog SequenceDone s)"
| "play_keyframes i (keyframe # rest) [] s = Waiting s"
| "play_keyframes i (keyframe # rest) (now # clock) s =
     (case getSafeAngles (Some (mapAnglesArrayToObject (kf_angles keyframe))) (KeyframeNumber (i + 1)) of
        Inl e \<Rightarrow> Threw e s
      | Inr (None, msgs) \<Rightarrow>
          Returned ((addLogs msgs s)\<lparr>isPlayingSequence := False, currentSequence := None\<rparr>)
      | Inr (Some safe, msgs) \<Rightarrow>
          let s1 = addLogs msgs s;
              startAngles = targetAngles s1;
              endAngles = rad safe;
              s2 = (case kf_gripper keyframe of
                      None \<Rightarrow> s1
                    | Some g \<Rightarrow> addLog GripperText (s1\<lparr>gripperOpen := g\<rparr>))
          in case animate startAngles endAngles now (kf_duration keyframe) (now # clock) s2 of
               (Returned s3, clock') \<Rightarrow>
                 if rest = [] then Returned (addLog SequenceDone s3)
                 else play_keyframes (Suc i) rest clock' s3
             | (other, clock') \<Rightarrow> other)"

definition playActionSequence ::
  "(string \<Rightarrow> string option) \<Rightarrow> play_arg \<Rightarrow> real list \<Rightarrow> state \<Rightarrow> outcome" where
  "playActionSequence globalThis sequenceOrName clock s =
     (let sequence = (case sequenceOrName of ByName n \<Rightarrow> actionLibrary n | ByObject q \<Rightarrow> q) in
      case sequence of
        None \<Rightarrow> Returned (addLog (UnknownAction sequenceOrName) s)
      | Some sq \<Rightarrow>
          if isPlayingSequence s then Returned (addLog SequenceInProgress s)
          else
            let s1 = s\<lparr>isPlayingSequence := True\<rparr> in
            case globalThis ''sequenceName'' of
              None \<Rightarrow> Threw ReferenceError s1
            | Some sequenceName \<Rightarrow>
                let s2 = addLog SequenceStarted (s1\<lparr>currentSequence := Some sequenceName\<rparr>) in
                case play_keyframes 0 (keyframes sq) clock s2 of
                  Returned s3 \<Rightarrow> Returned (s3\<lparr>isPlayingSequence := False, currentSequence := None\<rparr>)
                | Threw e s3 \<Rightarrow>
                    Returned ((addLog (SequenceFailed e) s3)
                                \<lparr>isPlayingSequence := False, currentSequence := None\<rparr>)
                | Waiting s3 \<Rightarrow> Waiting s3
                | NotANumber \<Rightarrow> NotANumber)"

section \<open>Cartesian Path Planner\<close>

text \<open>
  The inverse-kinematics service is an argument: a function from the requested point to
  what the \<^verbatim>\<open>fetch\<close> yields. \<open>FetchFailed\<close>: the request or the decoding of its body
  threw, with that message. \<open>Reply success angles message\<close>: the decoded body.
\<close>

datatype ik_reply = FetchFailed string | Reply bool "angles option" "string option"

definition callIK ::
  "(point option \<Rightarrow> ik_reply) \<Rightarrow> point option \<Rightarrow> state \<Rightarrow> (ik_error + angles) \<times> state" where
  "callIK ik position s =
     (let s1 = s\<lparr>ikCalls := ikCalls s @ [position]\<rparr> in
      case ik position of
        FetchFailed m \<Rightarrow> (Inl (Message m), s1)
      | Reply success angs message \<Rightarrow>
          if success then
            (case enforceJointSafety (mapAnglesObjectToArray angs) of
               Inl e \<Rightarrow> (Inl (Internal e), s1)
             | Inr safeAngles \<Rightarrow> (Inr (mapAnglesArrayToObject safeAngles), s1))
          else
            (case message of
               None \<Rightarrow> (Inl DefaultMessage, s1)
             | Some m \<Rightarrow> (if m = [] then (Inl DefaultMessage, s1) else (Inl (Message m), s1))))"

definition to_radians :: "angles \<Rightarrow> angles \<Rightarrow> real \<Rightarrow> real list option" where
  \<comment> \<open>the six entries \<^verbatim>\<open>(p1.jointK + (p2.jointK - p1.jointK) * segmentProgress) * Math.PI / 180\<close>;
      \<^verbatim>\<open>NaN\<close> if a joint is \<^verbatim>\<open>undefined\<close>\<close>
  "to_radians p1 p2 segmentProgress =
     (case (joint1 p1, joint2 p1, joint3 p1, joint4 p1, joint5 p1, joint6 p1,
            joint1 p2, joint2 p2, joint3 p2, joint4 p2, joint5 p2, joint6 p2) of
        (Some a1, Some a2, Some a3, Some a4, Some a5, Some a6,
         Some b1, Some b2, Some b3, Some b4, Some b5, Some b6) \<Rightarrow>
          Some [(a1 + (b1 - a1) * segmentProgress) * pi / 180,
                (a2 + (b2 - a2) * segmentProgress) * pi / 180,
                (a3 + (b3 - a3) * segmentProgress) * pi / 180,
                (a4 + (b4 - a4) * segmentProgress) * pi / 180,
                (a5 + (b5 - a5) * segmentProgress) * pi / 180,
                (a6 + (b6 - a6) * segmentProgress) * pi / 180]
      | _ \<Rightarrow> None)"

definition final_radians :: "angles \<Rightarrow> real list option" where
  \<comment> \<open>the six entries \<^verbatim>\<open>finalAngles.jointK * Math.PI / 180\<close>\<close>
  "final_radians p =
     (case (joint1 p, joint2 p, joint3 p, joint4 p, joint5 p, joint6 p) of
        (Some a1, Some a2, Some a3, Some a4, Some a5, Some a6) \<Rightarrow>
          Some [a1 * pi / 180, a2 * pi / 180, a3 * pi / 180,
                a4 * pi / 180, a5 * pi / 180, a6 * pi / 180]
      | _ \<Rightarrow> None)"

text \<open>
  The closure \<^verbatim>\<open>animate\<close> of \<^verbatim>\<open>executeJointPath\<close>, for a path that is not empty. A
  negative \<^verbatim>\<open>segmentIndex\<close> (a clock that ran backwards) reads \<^verbatim>\<open>jointPath[-1]\<close>,
  which is \<^verbatim>\<open>undefined\<close>, and its \<^verbatim>\<open>.joint1\<close> throws a TypeError. So does a
  progress that is \<^verbatim>\<open>NaN\<close> or \<^verbatim>\<open>-Infinity\<close>: the index is then no array index and
  the comparison with \<^verbatim>\<open>pathLength - 1\<close> is false. After the first call the exception
  leaves a frame callback, and the promise of \<^verbatim>\<open>executeJointPath\<close> never settles.
\<close>

fun animate_path :: "angles list \<Rightarrow> real \<Rightarrow> real \<Rightarrow> real list \<Rightarrow> state \<Rightarrow> outcome" where
  "animate_path jointPath t0 totalDuration [] s = Waiting s"
| "animate_path jointPath t0 totalDuration (now # clock) s =
     (let elapsed = now - t0 in
      case progress_at elapsed totalDuration of
        None \<Rightarrow> Threw TypeError s
      | Some progress \<Rightarrow>
          let pathLength = length jointPath;
              segmentFloat = progress * (real pathLength - 1);
              segmentIndex = \<lfloor>segmentFloat\<rfloor>;
              segmentProgress = segmentFloat - of_int segmentIndex
          in if segmentIndex \<ge> int pathLength - 1 then
               (case final_radians (jointPath ! (pathLength - 1)) of
                  None \<Rightarrow> NotANumber
                | Some final \<Rightarrow> Returned (s\<lparr>targetAngles := final\<rparr>))
             else if segmentIndex < 0 then Threw TypeError s
             else
               (case to_radians (jointPath ! nat segmentIndex) (jointPath ! (nat segmentIndex + 1))
                       segmentProgress of
                  None \<Rightarrow> NotANumber
                | Some mid \<Rightarrow>
                    animate_path jointPath t0 totalDuration clock (s\<lparr>targetAngles := mid\<rparr>)))"

definition executeJointPath :: "angles list \<Rightarrow> real \<Rightarrow> real list \<Rightarrow> state \<Rightarrow> outcome" where
  "executeJointPath jointPath totalDuration clock s =
     (if length jointPath = 0 then Returned s
      else case clock of
             [] \<Rightarrow> Waiting s
           | now # rest \<Rightarrow> animate_path jointPath now totalDuration (now # rest) s)"

text \<open>
  The \<^verbatim>\<open>for\<close> loop of \<^verbatim>\<open>moveToTarget\<close> over the sampled points, from index \<open>i\<close> on.
  \<open>Aborted\<close> is either exit without a plan: the \<^verbatim>\<open>return\<close> of the inner \<^verbatim>\<open>catch\<close>, or
  the \<^verbatim>\<open>break\<close> with \<^verbatim>\<open>collisionDetected\<close> set, which returns right after the loop.
\<close>

datatype plan = Planned "angles list" | Aborted

fun plan_loop ::
  "(point option \<Rightarrow> ik_reply) \<Rightarrow> nat \<Rightarrow> point option list \<Rightarrow> angles list \<Rightarrow> state \<Rightarrow> plan \<times> state" where
  "plan_loop ik i [] jointPath s = (Planned jointPath, s)"
| "plan_loop ik i (pnt # rest) jointPath s =
     (case callIK ik pnt s of
        (Inl e, s1) \<Rightarrow> (Aborted, addLog (PathPointIKFailed e) s1)
      | (Inr safeAngles, s1) \<Rightarrow>
          let v = quickCollisionCheck safeAngles;
              s2 = addLogs (snd v) s1
          in if fst v then (Aborted, addLog (PathPointCollision i) s2)
             else plan_loop ik (Suc i) rest (jointPath @ [safeAngles]) s2)"

definition moveToTarget ::
  "real \<Rightarrow> real \<Rightarrow> real \<Rightarrow> real \<Rightarrow> (point option \<Rightarrow> ik_reply) \<Rightarrow> real list \<Rightarrow> state \<Rightarrow> outcome" where
  "moveToTarget x y z samples ik clock s =
     (let s1 = addLog (PlanningPath z) s;
          currentPos = endEffectorPos s1;
          path3D = sampleLinePath currentPos \<lparr>cx = x, cy = y, cz = z\<rparr> samples;
          s2 = addLog (GeneratedPoints (length path3D)) s1
      in case plan_loop ik 0 path3D [] s2 of
           (Aborted, s3) \<Rightarrow> Returned s3
         | (Planned jointPath, s3) \<Rightarrow>
             let s4 = addLog IKComplete s3;
                 s5 = s4\<lparr>targetEndEffectorPos := Some \<lparr>cx = x, cy = y, cz = z\<rparr>\<rparr>
             in case executeJointPath jointPath 2000 clock s5 of
                  Returned s6 \<Rightarrow>
                    let s7 = addLog Arrived s6 in
                    if connected s7
                    then Returned (sendCommand (MoveToPosition \<lparr>cx = x, cy = y, cz = z\<rparr>) s7)
                    else Returned s7
                | other \<Rightarrow> other)"

section \<open>Concrete states, requests and scenarios\<close>

definition initial_state :: state where
  \<comment> \<open>the values the module starts with, with the socket connected and the end-effector at a
      reachable point\<close>
  "initial_state =
     \<lparr>targetAngles = [0, 0, 0, 0, 0, 0], targetEndEffectorPos = None,
      endEffectorPos = \<lparr>cx = 0.18, cy = 0, cz = 0.3\<rparr>,
      connected = True, wsOpen = True, isPlayingSequence = False, currentSequence = None,
      gripperOpen = False, log = [], sent = [], ikCalls = [], rafQueue = []\<rparr>"

definition no_globals :: "string \<Rightarrow> string option" where
  \<comment> \<open>a page whose global object has no property the engine asks for\<close>
  "no_globals = (\<lambda>_. None)"

definition unreachable_everywhere :: "point option \<Rightarrow> ik_reply" where
  "unreachable_everywhere = (\<lambda>_. Reply False None (Some ''unreachable''))"

definition home_angles :: angles where
  "home_angles = \<lparr>joint1 = Some 0, joint2 = Some 0, joint3 = Some 0, joint4 = Some 0,
     joint5 = Some 0, joint6 = Some 0\<rparr>"

definition reachable_only_at_start :: "point option \<Rightarrow> ik_reply" where
  "reachable_only_at_start =
     (\<lambda>p. if p = Some \<lparr>cx = 0.18, cy = 0, cz = 0.3\<rparr> then Reply True (Some home_angles) None
          else Reply False None (Some ''unreachable''))"

definition tool_left :: angles where
  "tool_left = \<lparr>joint1 = Some 0, joint2 = Some 0, joint3 = Some 0, joint4 = Some 0,
     joint5 = Some 0, joint6 = Some 90\<rparr>"

definition tool_right :: angles where
  "tool_right = \<lparr>joint1 = Some 0, joint2 = Some 0, joint3 = Some 0, joint4 = Some 0,
     joint5 = Some 0, joint6 = Some (- 90)\<rparr>"

definition and_then :: "outcome \<Rightarrow> (state \<Rightarrow> outcome) \<Rightarrow> outcome" where
  "and_then r f = (case r of Returned s \<Rightarrow> f s | other \<Rightarrow> other)"

definition trajectory_value :: "trajectory \<Rightarrow> real \<Rightarrow> real list option" where
  \<comment> \<open>the vector a trajectory's \<^verbatim>\<open>interpolate\<close> writes at clock reading \<open>now\<close>\<close>
  "trajectory_value tr now =
     (case progress_at (now - startTime tr) (duration tr) of
        None \<Rightarrow> None
      | Some progress \<Rightarrow> lerp_angles (startAngles tr) (goalAngles tr) (easeInOutCubic progress))"

definition overlapping_runs :: outcome where
  \<comment> \<open>a 1500 ms run to \<open>tool_left\<close> started at 0; a frame at 750; a 100 ms run to
      \<open>tool_right\<close> started at 800; frames at 900 and at 1500\<close>
  "overlapping_runs =
     and_then (and_then (and_then (and_then
       (updateRobotJoints (Some tool_left) 1500 0 initial_state)
       (animation_frame 750))
       (updateRobotJoints (Some tool_right) 100 800))
       (animation_frame 900))
       (animation_frame 1500)"

definition sample_passes :: "(point option \<Rightarrow> ik_reply) \<Rightarrow> point option \<Rightarrow> bool" where
  \<comment> \<open>the service solves the point and the clamped solution passes \<^verbatim>\<open>quickCollisionCheck\<close>\<close>
  "sample_passes ik p =
     (case ik p of
        FetchFailed _ \<Rightarrow> False
      | Reply success angs _ \<Rightarrow>
          success \<and>
          (case enforceJointSafety (mapAnglesObjectToArray angs) of
             Inl _ \<Rightarrow> False
           | Inr safeAngles \<Rightarrow> \<not> fst (quickCollisionCheck (mapAnglesArrayToObject safeAngles))))"

section \<open>Properties of the Joint Safety Enforcer\<close>

lemma list6: "length (v::'a list) = 6 \<Longrightarrow> \<exists>a b c d e f. v = [a,b,c,d,e,f]"
  by (auto simp: length_Suc_conv numeral_eq_Suc)

lemma all_lt6: "(\<forall>i<6::nat. P i) = (P 0 \<and> P 1 \<and> P 2 \<and> P 3 \<and> P 4 \<and> P 5)"
proof -
  have s: "{..<6::nat} = {0, 1, 2, 3, 4, 5}" by auto
  have a: "(\<forall>i\<in>{..<6::nat}. P i) = (P 0 \<and> P 1 \<and> P 2 \<and> P 3 \<and> P 4 \<and> P 5)"
    unfolding s by simp
  have b: "(\<forall>i<6. P i) = (\<forall>i\<in>{..<6::nat}. P i)" by (simp only: Ball_def lessThan_iff)
  show ?thesis by (simp only: a b)
qed

lemma limits_nth:
  "JOINT_LIMITS_DEG ! 0 = \<lparr>min_deg = -170, max_deg = 170\<rparr>"
  "JOINT_LIMITS_DEG ! 1 = \<lparr>min_deg = -15, max_deg = 135\<rparr>"
  "JOINT_LIMITS_DEG ! 2 = \<lparr>min_deg = 0, max_deg = 140\<rparr>"
  "JOINT_LIMITS_DEG ! 3 = \<lparr>min_deg = -90, max_deg = 120\<rparr>"
  "JOINT_LIMITS_DEG ! 4 = \<lparr>min_deg = -95, max_deg = 95\<rparr>"
  "JOINT_LIMITS_DEG ! 5 = \<lparr>min_deg = -180, max_deg = 180\<rparr>"
  "length JOINT_LIMITS_DEG = 6"
  by (simp_all add: JOINT_LIMITS_DEG_def)

lemma within_joint_limits6:
  "within_joint_limits [a,b,c,d,e,f] =
    (-170 \<le> a \<and> a \<le> 170 \<and> -15 \<le> b \<and> b \<le> 135 \<and> 0 \<le> c \<and> c \<le> 140 \<and>
     -90 \<le> d \<and> d \<le> 120 \<and> -95 \<le> e \<and> e \<le> 95 \<and> -180 \<le> f \<and> f \<le> 180)"
  unfolding within_joint_limits_def limits_nth(7) all_lt6
  by (simp add: JOINT_LIMITS_DEG_def)

lemma clamp_each6:
  "clamp_each 0 [a,b,c,d,e,f] =
     Inr [clamp a (-170) 170, clamp b (-15) 135, clamp c 0 140,
          clamp d (-90) 120, clamp e (-95) 95, clamp f (-180) 180]"
  by (simp add: JOINT_LIMITS_DEG_def)

lemma clamp_id: "lo \<le> x \<Longrightarrow> x \<le> hi \<Longrightarrow> clamp x lo hi = x"
  by (simp add: clamp_def)

lemma couple_shoulder_elbow6:
  assumes "within_joint_limits [a,b,c,d,e,f]"
  shows "couple_shoulder_elbow [a,b,c,d,e,f] = [a,b, (if b + c > 160 then 160 - b else c), d,e,f]"
  using assms unfolding within_joint_limits6
  by (simp add: couple_shoulder_elbow_def Let_def SHOULDER_ELBOW_MIN_def SHOULDER_ELBOW_MAX_def
        limits_nth clamp_def)

lemma cap_elbow_forward6:
  assumes "within_joint_limits [a,b,c,d,e,f]"
  shows "\<not> elbow_cap_taken [a,b,c,d,e,f]" "cap_elbow_forward [a,b,c,d,e,f] = [a,b,c,d,e,f]"
  using assms unfolding within_joint_limits6
  by (simp_all add: cap_elbow_forward_def elbow_cap_taken_def ELBOW_FORWARD_MAX_def)

lemma elbow_pair:
  fixes B C :: real
  assumes "-15 \<le> B" "B \<le> 135" "0 \<le> C" "C \<le> 140"
  defines "C2 \<equiv> (if B + C > 160 then 160 - B else C)"
  shows "0 \<le> C2" "C2 \<le> 140" "-110 \<le> B + C2" "B + C2 \<le> 160"
  using assms by (auto simp: C2_def)

text \<open>
  The arithmetic of the wrist block. With \<open>D \<le> 120\<close> and \<open>\<bar>E\<bar> \<le> 95\<close> the combined
  angle exceeds 190 only for \<open>D > 95\<close>, the excess is at most 25, and taking half of it from
  each magnitude lands on exactly 190 without leaving either joint's range.
\<close>

lemma wrist_pair:
  fixes D E :: real
  assumes lim: "-90 \<le> D" "D \<le> 120" "-95 \<le> E" "E \<le> 95"
  defines "D2 \<equiv> (if \<bar>D\<bar> + \<bar>E\<bar> > 190 then D - (D + \<bar>E\<bar> - 190) / 2 else D)"
    and "E2 \<equiv> (if \<bar>D\<bar> + \<bar>E\<bar> > 190 then E - sgn E * (D + \<bar>E\<bar> - 190) / 2 else E)"
  shows "-90 \<le> D2" "D2 \<le> 120" "-95 \<le> E2" "E2 \<le> 95" "\<bar>D2\<bar> + \<bar>E2\<bar> \<le> 190"
proof -
  have "-90 \<le> D2 \<and> D2 \<le> 120 \<and> -95 \<le> E2 \<and> E2 \<le> 95 \<and> \<bar>D2\<bar> + \<bar>E2\<bar> \<le> 190"
  proof (cases "\<bar>D\<bar> + \<bar>E\<bar> > 190")
    case False
    then show ?thesis using lim by (simp add: D2_def E2_def)
  next
    case over: True
    with lim have Dpos: "0 < D" by (simp add: abs_if split: if_splits)
    have red: "D2 = D - (D + \<bar>E\<bar> - 190) / 2" "E2 = E - sgn E * (D + \<bar>E\<bar> - 190) / 2"
      using over by (simp_all only: D2_def E2_def if_True)
    show ?thesis
    proof (cases "0 < E")
      case True
      with over Dpos have t: "D + E > 190" by simp
      from True have sg: "sgn E = 1" "\<bar>E\<bar> = E" by simp_all
      from red have d: "D2 = D - (D + E - 190) / 2" and e: "E2 = E - (D + E - 190) / 2"
        unfolding sg by argo+
      have "0 \<le> D2" "0 \<le> E2" unfolding d e using lim t by argo+
      then have "\<bar>D2\<bar> + \<bar>E2\<bar> = D2 + E2" by simp
      also have "\<dots> = 190" unfolding d e by argo
      finally have "\<bar>D2\<bar> + \<bar>E2\<bar> \<le> 190" by simp
      moreover have "-90 \<le> D2" "D2 \<le> 120" "-95 \<le> E2" "E2 \<le> 95"
        unfolding d e using lim t by argo+
      ultimately show ?thesis by simp
    next
      case False
      with over lim have neg: "E < 0" by (simp add: abs_if split: if_splits)
      with over Dpos have t: "D - E > 190" by simp
      from neg have sg: "sgn E = - 1" "\<bar>E\<bar> = - E" by simp_all
      from red have d: "D2 = D - (D - E - 190) / 2" and e: "E2 = E + (D - E - 190) / 2"
        unfolding sg by argo+
      have "0 \<le> D2" "E2 \<le> 0" unfolding d e using lim t by argo+
      then have "\<bar>D2\<bar> + \<bar>E2\<bar> = D2 - E2" by simp
      also have "\<dots> = 190" unfolding d e by argo
      finally have "\<bar>D2\<bar> + \<bar>E2\<bar> \<le> 190" by simp
      moreover have "-90 \<le> D2" "D2 \<le> 120" "-95 \<le> E2" "E2 \<le> 95"
        unfolding d e using lim t by argo+
      ultimately show ?thesis by simp
    qed
  qed
  then show "-90 \<le> D2" "D2 \<le> 120" "-95 \<le> E2" "E2 \<le> 95" "\<bar>D2\<bar> + \<bar>E2\<bar> \<le> 190"
    by simp_all
qed

lemma wrist_reduced6:
  assumes "within_joint_limits [a,b,c,d,e,f]" "\<bar>d\<bar> + \<bar>e\<bar> > 190"
  shows "wrist_reduced [a,b,c,d,e,f] 3 = d - (d + \<bar>e\<bar> - 190) / 2"
    "wrist_reduced [a,b,c,d,e,f] 4 = e - sgn e * (d + \<bar>e\<bar> - 190) / 2"
  using assms unfolding within_joint_limits6
  by (simp_all add: wrist_reduced_def Let_def WRIST_COUPLED_LIMIT_def sgn_if abs_if split: if_splits)

lemma wrist_reclamp6:
  assumes w: "within_joint_limits [a,b,c,d,e,f]" and over: "\<bar>d\<bar> + \<bar>e\<bar> > 190"
  shows "clamp (wrist_reduced [a,b,c,d,e,f] 3) (-90) 120 = wrist_reduced [a,b,c,d,e,f] 3"
    "clamp (wrist_reduced [a,b,c,d,e,f] 4) (-95) 95 = wrist_reduced [a,b,c,d,e,f] 4"
proof -
  from w have lim: "-90 \<le> d" "d \<le> 120" "-95 \<le> e" "e \<le> 95"
    unfolding within_joint_limits6 by simp_all
  note p = wrist_pair[OF lim, unfolded if_P[OF over]]
  show "clamp (wrist_reduced [a,b,c,d,e,f] 3) (-90) 120 = wrist_reduced [a,b,c,d,e,f] 3"
    unfolding wrist_reduced6(1)[OF w over] using p(1,2) by (rule clamp_id)
  show "clamp (wrist_reduced [a,b,c,d,e,f] 4) (-95) 95 = wrist_reduced [a,b,c,d,e,f] 4"
    unfolding wrist_reduced6(2)[OF w over] using p(3,4) by (rule clamp_id)
qed

lemma couple_wrist6:
  assumes w: "within_joint_limits [a,b,c,d,e,f]"
  shows "couple_wrist [a,b,c,d,e,f] =
     [a,b,c, (if \<bar>d\<bar> + \<bar>e\<bar> > 190 then d - (d + \<bar>e\<bar> - 190) / 2 else d),
             (if \<bar>d\<bar> + \<bar>e\<bar> > 190 then e - sgn e * (d + \<bar>e\<bar> - 190) / 2 else e), f]"
proof (cases "\<bar>d\<bar> + \<bar>e\<bar> > 190")
  case False
  then show ?thesis by (simp add: couple_wrist_def WRIST_COUPLED_LIMIT_def)
next
  case True
  have "couple_wrist [a,b,c,d,e,f] =
      [a,b,c, wrist_reduced [a,b,c,d,e,f] 3, wrist_reduced [a,b,c,d,e,f] 4, f]"
    using True
    by (simp add: couple_wrist_def WRIST_COUPLED_LIMIT_def limits_nth wrist_reclamp6[OF w True])
  then show ?thesis using True by (simp add: wrist_reduced6[OF w True])
qed

lemma enforce6:
  fixes a b c d e f :: real
  defines "B \<equiv> clamp b (-15) 135" and "C \<equiv> clamp c 0 140"
    and "D \<equiv> clamp d (-90) 120" and "E \<equiv> clamp e (-95) 95"
  shows "enforceJointSafety [a,b,c,d,e,f] =
     Inr [clamp a (-170) 170, B, (if B + C > 160 then 160 - B else C),
          (if \<bar>D\<bar> + \<bar>E\<bar> > 190 then D - (D + \<bar>E\<bar> - 190) / 2 else D),
          (if \<bar>D\<bar> + \<bar>E\<bar> > 190 then E - sgn E * (D + \<bar>E\<bar> - 190) / 2 else E),
          clamp f (-180) 180]"
proof -
  let ?A = "clamp a (-170) 170" and ?F = "clamp f (-180) 180"
  let ?C2 = "if B + C > 160 then 160 - B else C"
  have w1: "within_joint_limits [?A, B, C, D, E, ?F]"
    unfolding within_joint_limits6 B_def C_def D_def E_def by (simp add: clamp_def)
  have w2: "within_joint_limits [?A, B, ?C2, D, E, ?F]"
    using w1 unfolding within_joint_limits6 by auto
  show ?thesis
    unfolding enforceJointSafety_def clamp_each6
    by (simp only: sum.case B_def[symmetric] C_def[symmetric] D_def[symmetric] E_def[symmetric]
          couple_shoulder_elbow6[OF w1] cap_elbow_forward6(2)[OF w2] couple_wrist6[OF w2])
qed

lemma enforce6_fixed:
  assumes w: "within_joint_limits [a,b,c,d,e,f]"
    and se: "b + c \<le> 160" and wr: "\<bar>d\<bar> + \<bar>e\<bar> \<le> 190"
  shows "enforceJointSafety [a,b,c,d,e,f] = Inr [a,b,c,d,e,f]"
proof -
  from w have "clamp a (-170) 170 = a" "clamp b (-15) 135 = b" "clamp c 0 140 = c"
    "clamp d (-90) 120 = d" "clamp e (-95) 95 = e" "clamp f (-180) 180 = f"
    unfolding within_joint_limits6 by (simp_all add: clamp_id)
  then show ?thesis using se wr by (simp add: enforce6)
qed

lemma enforce6_props:
  "\<exists>a' b' c' d' e' f'. enforceJointSafety [a,b,c,d,e,f] = Inr [a',b',c',d',e',f'] \<and>
     within_joint_limits [a',b',c',d',e',f'] \<and> -110 \<le> b' + c' \<and> b' + c' \<le> 160 \<and>
     \<bar>d'\<bar> + \<bar>e'\<bar> \<le> 190"
proof -
  let ?B = "clamp b (-15) 135" and ?C = "clamp c 0 140"
  let ?D = "clamp d (-90) 120" and ?E = "clamp e (-95) 95"
  have bl: "-15 \<le> ?B" "?B \<le> 135" "0 \<le> ?C" "?C \<le> 140"
    and dl: "-90 \<le> ?D" "?D \<le> 120" "-95 \<le> ?E" "?E \<le> 95"
    and al: "-170 \<le> clamp a (-170) 170" "clamp a (-170) 170 \<le> 170"
    and fl: "-180 \<le> clamp f (-180) 180" "clamp f (-180) 180 \<le> 180"
    by (simp_all add: clamp_def)
  show ?thesis
    unfolding enforce6 within_joint_limits6
    using elbow_pair[OF bl] wrist_pair[OF dl] al fl bl(1,2)
    by (intro exI conjI) (rule refl | assumption)+
qed

text \<open>
  C1. For every real-valued 6-vector \<open>v\<close> (degrees), \<^verbatim>\<open>enforceJointSafety(v)\<close> returns a
  6-vector each of whose components lies within that joint's \<open>[min, max]\<close> of
  \<^verbatim>\<open>JOINT_LIMITS_DEG\<close>.
\<close>

theorem enforceJointSafety_within_limits:
  assumes "length v = 6"
  shows "\<exists>out. enforceJointSafety v = Inr out \<and> length out = 6 \<and> within_joint_limits out"
proof -
  from list6[OF assms] obtain a b c d e f where v: "v = [a,b,c,d,e,f]" by blast
  from enforce6_props[of a b c d e f] show ?thesis unfolding v by auto
qed

theorem enforceJointSafety_within_limits_witness:
  "length [200, -30, 200, 150, -100, 999 :: real] = 6 \<and>
   (\<exists>out. enforceJointSafety [200, -30, 200, 150, -100, 999] = Inr out \<and> length out = 6 \<and>
      within_joint_limits out)"
  using enforceJointSafety_within_limits[of "[200, -30, 200, 150, -100, 999]"] by simp

text \<open>
  C2. The clamp is idempotent: for every real-valued 6-vector \<open>v\<close>, applying
  \<^verbatim>\<open>enforceJointSafety\<close> to its own output returns that output unchanged.
\<close>

theorem enforceJointSafety_idempotent:
  assumes "length v = 6"
  shows "\<exists>out. enforceJointSafety v = Inr out \<and> enforceJointSafety out = Inr out"
proof -
  from list6[OF assms] obtain a b c d e f where v: "v = [a,b,c,d,e,f]" by blast
  from enforce6_props[of a b c d e f] obtain a' b' c' d' e' f'
    where out: "enforceJointSafety [a,b,c,d,e,f] = Inr [a',b',c',d',e',f']"
      and w: "within_joint_limits [a',b',c',d',e',f']"
      and se: "b' + c' \<le> 160" and wr: "\<bar>d'\<bar> + \<bar>e'\<bar> \<le> 190"
    by blast
  from enforce6_fixed[OF w se wr] out show ?thesis unfolding v by simp
qed

theorem enforceJointSafety_idempotent_witness:
  "length [0, 135, 200, 120, -95, 0 :: real] = 6 \<and>
   (\<exists>out. enforceJointSafety [0, 135, 200, 120, -95, 0] = Inr out \<and>
      enforceJointSafety out = Inr out)"
  using enforceJointSafety_idempotent[of "[0, 135, 200, 120, -95, 0]"] by simp



section \<open>Properties of the Collision Validator\<close>


lemma flag_simps [simp]: "fst (flag m v) = True" "snd (flag m v) = snd v @ [m]"
  by (simp_all add: flag_def)


lemma check_entries_only_limits:
  assumes "\<And>r. \<not> P (JointLimitTriggered r)"
  shows "list_ex P (snd (check_entries idx vals v)) = list_ex P (snd v)"
  using assms
  by (induction idx vals v rule: check_entries.induct) (auto simp: Let_def)

lemma check_point_log:
  "list_ex P (snd (check_point v p)) =
     (list_ex P (snd v) \<or> (pt_z p < - 0.005 \<and> P (BelowGround (pt_z p * 1000))) \<or>
      (pt_z p < baseHeight LINK_LENGTHS_M + BASE_CLEARANCE_M \<and> pt_radial p < BASE_RADIUS_M \<and>
         P (NearBase (BASE_RADIUS_M * 1000))))"
  by (auto simp: check_point_def Let_def)

lemma foldl_check_point_ground:
  "list_ex is_ground_violation (snd (foldl check_point v pts)) =
     (list_ex is_ground_violation (snd v) \<or> list_ex (\<lambda>p. pt_z p < - 0.005) pts)"
  by (induction pts arbitrary: v) (auto simp: check_point_log is_ground_violation_def)


lemma check_point_risk: "fst (check_point v p) = (fst v \<or> pt_z p < - 0.005 \<or>
      (pt_z p < baseHeight LINK_LENGTHS_M + BASE_CLEARANCE_M \<and> pt_radial p < BASE_RADIUS_M))"
  by (auto simp: check_point_def Let_def)

lemma foldl_check_point_risk:
  "fst (foldl check_point v pts) = (fst v \<or> list_ex (\<lambda>p. pt_z p < - 0.005 \<or>
      (pt_z p < baseHeight LINK_LENGTHS_M + BASE_CLEARANCE_M \<and> pt_radial p < BASE_RADIUS_M)) pts)"
  by (induction pts arbitrary: v) (auto simp: check_point_risk)



lemma deg_angles: "90 * DEG2RAD = pi / 2" "120 * DEG2RAD = 2 * pi / 3" "180 * DEG2RAD = pi"
  "0 * DEG2RAD = 0"
  by (simp_all add: DEG2RAD_def)

lemma sin_120: "sin (2 * pi / 3) = sqrt 3 / 2"
  using sin_120' by (simp add: mult.commute)

lemma forward_loop_yaw0:
  "forward_loop 0 ((lab, len, pitch) # rest) radial height =
     \<lparr>pt_label = lab, pt_x = radial + sin pitch * len, pt_y = 0,
      pt_z = height + cos pitch * len, pt_radial = \<bar>radial + sin pitch * len\<bar>\<rparr>
       # forward_loop 0 rest (radial + sin pitch * len) (height + cos pitch * len)"
  by (simp add: Let_def)

lemma fk_below_ground:
  "computeForwardPositions pose_below_ground =
     [\<lparr>pt_label = Elbow, pt_x = 0.1042, pt_y = 0, pt_z = 0.044, pt_radial = 0.1042\<rparr>,
      \<lparr>pt_label = Wrist, pt_x = 0.1492, pt_y = 0, pt_z = 0.044, pt_radial = 0.1492\<rparr>,
      \<lparr>pt_label = EndEffector, pt_x = 0.1492 + sqrt 3 / 2 * 0.0932, pt_y = 0, pt_z = - 0.0026,
         pt_radial = 0.1492 + sqrt 3 / 2 * 0.0932\<rparr>]"
  unfolding computeForwardPositions_def pose_below_ground_def
  apply (simp add: Let_def nullish_or_zero_def LINK_LENGTHS_M_def forward_loop_yaw0
           del: forward_loop.simps(2))
  apply (simp add: deg_angles cos_120 sin_120)
  done


text \<open>
  C6 as stated fails: the source tests \<^verbatim>\<open>point.z < -0.005\<close>, not \<^verbatim>\<open>point.z < 0\<close>.
  At \<open>pose_below_ground\<close> the end-effector key point has \<open>z = -0.0026 < 0\<close>, and the
  validator reports nothing at all.
\<close>

theorem ground_counterexample:
  "pt_z (computeForwardPositions pose_below_ground ! 2) < 0 \<and>
   quickCollisionCheck pose_below_ground = (False, [])"
proof -
  have "0 \<le> sqrt 3 / 2 * (0.0932::real)" by simp
  moreover have "(0.09::real) \<le> 0.1492" by simp
  ultimately have far: "\<not> (0.1492 + sqrt 3 / 2 * 0.0932 < BASE_RADIUS_M)"
    unfolding BASE_RADIUS_M_def by linarith
  have p1: "check_point (False, [])
      \<lparr>pt_label = Elbow, pt_x = 0.1042, pt_y = 0, pt_z = 0.044, pt_radial = 0.1042\<rparr> = (False, [])"
    by (simp add: check_point_def Let_def BASE_RADIUS_M_def)
  have p2: "check_point (False, [])
      \<lparr>pt_label = Wrist, pt_x = 0.1492, pt_y = 0, pt_z = 0.044, pt_radial = 0.1492\<rparr> = (False, [])"
    by (simp add: check_point_def Let_def BASE_RADIUS_M_def)
  have p3: "check_point (False, [])
      \<lparr>pt_label = EndEffector, pt_x = 0.1492 + sqrt 3 / 2 * 0.0932, pt_y = 0, pt_z = - 0.0026,
        pt_radial = 0.1492 + sqrt 3 / 2 * 0.0932\<rparr> = (False, [])"
    using far by (simp add: check_point_def Let_def)
  have geo: "geometryCollisionCheck pose_below_ground = (False, [])"
    unfolding geometryCollisionCheck_def fk_below_ground
    by (simp only: foldl_Cons foldl_Nil p1 p2 p3)
  have ent: "check_entries 0 [Some 0, Some 90, Some 0, Some 30, Some 0, Some 0] (False, [])
      = (False, [])"
    by (simp add: JOINT_LIMITS_DEG_def num_lt_def num_gt_def)
  have "quickCollisionCheck pose_below_ground = (False, [])"
    unfolding quickCollisionCheck_def geo
    by (simp add: pose_below_ground_def ent Let_def num_add_def num_abs_def num_lt_def num_gt_def
          SHOULDER_ELBOW_MIN_def SHOULDER_ELBOW_MAX_def ELBOW_FORWARD_MAX_def
          WRIST_COUPLED_LIMIT_def del: check_entries.simps)
  then show ?thesis unfolding fk_below_ground by simp
qed

text \<open>
  C6 amended. For every angle object, \<^verbatim>\<open>quickCollisionCheck\<close> logs a ground-penetration
  violation exactly when one of the three forward-kinematics key points has
  \<open>z < -0.005\<close> (5 mm under the floor), and then its verdict is a risk.
\<close>

theorem quickCollisionCheck_ground:
  "list_ex is_ground_violation (snd (quickCollisionCheck a)) =
      list_ex (\<lambda>p. pt_z p < - 0.005) (computeForwardPositions a) \<and>
   (list_ex (\<lambda>p. pt_z p < - 0.005) (computeForwardPositions a) \<longrightarrow> fst (quickCollisionCheck a))"
proof -
  have "list_ex is_ground_violation (snd (quickCollisionCheck a)) =
      list_ex (\<lambda>p. pt_z p < - 0.005) (computeForwardPositions a)"
    by (simp add: quickCollisionCheck_def Let_def geometryCollisionCheck_def
          foldl_check_point_ground check_entries_only_limits is_ground_violation_def
          del: check_entries.simps)
  moreover have "fst (quickCollisionCheck a)"
    if "list_ex (\<lambda>p. pt_z p < - 0.005) (computeForwardPositions a)"
  proof -
    from that have "fst (geometryCollisionCheck a)"
      unfolding geometryCollisionCheck_def foldl_check_point_risk by (auto simp: list_ex_iff)
    then show ?thesis by (simp add: quickCollisionCheck_def Let_def)
  qed
  ultimately show ?thesis by blast
qed

lemma fk_folded:
  "computeForwardPositions pose_folded =
     [\<lparr>pt_label = Elbow, pt_x = 0, pt_y = 0, pt_z = - 0.0602, pt_radial = 0\<rparr>,
      \<lparr>pt_label = Wrist, pt_x = 0, pt_y = 0, pt_z = - 0.1052, pt_radial = 0\<rparr>,
      \<lparr>pt_label = EndEffector, pt_x = 0, pt_y = 0, pt_z = - 0.1984, pt_radial = 0\<rparr>]"
  unfolding computeForwardPositions_def pose_folded_def
  by (simp add: Let_def nullish_or_zero_def LINK_LENGTHS_M_def forward_loop_yaw0 deg_angles
           del: forward_loop.simps(2))

theorem quickCollisionCheck_ground_witness:
  "list_ex (\<lambda>p. pt_z p < - 0.005) (computeForwardPositions pose_folded) \<and>
   list_ex is_ground_violation (snd (quickCollisionCheck pose_folded)) \<and>
   fst (quickCollisionCheck pose_folded)"
proof -
  have "list_ex (\<lambda>p. pt_z p < - 0.005) (computeForwardPositions pose_folded)"
    unfolding fk_folded by simp
  then show ?thesis using quickCollisionCheck_ground[of pose_folded] by simp
qed


section \<open>Properties of the line sampling\<close>

lemma sample_loop_eq:
  "i \<le> Suc N \<Longrightarrow> sample_loop start endp (real N) i path =
      path @ map (sample_point start endp (real N)) [i..<Suc N]"
proof (induction "Suc N - i" arbitrary: i path)
  case 0
  then have "i = Suc N" by simp
  then show ?case by (subst sample_loop.simps) simp
next
  case (Suc k)
  then have lt: "i \<le> N" by simp
  then have "sample_loop start endp (real N) i path =
      sample_loop start endp (real N) (Suc i) (path @ [sample_point start endp (real N) i])"
    by (subst sample_loop.simps) simp
  also have "\<dots> = (path @ [sample_point start endp (real N) i]) @
      map (sample_point start endp (real N)) [Suc i..<Suc N]"
    using Suc lt by (intro Suc.hyps(1)) simp_all
  also have "\<dots> = path @ map (sample_point start endp (real N)) [i..<Suc N]"
    using lt by (simp add: upt_conv_Cons del: upt_Suc)
  finally show ?case .
qed



section \<open>Properties of the Action Sequence Player\<close>


text \<open>
  C8. Calling \<^verbatim>\<open>playActionSequence\<close> while a sequence is playing returns at once: the call
  adds one log entry (the in-progress notice, or the unknown-action notice when the request
  names no sequence) and changes nothing else; no exception is raised and no keyframe runs.
\<close>

theorem playActionSequence_while_playing:
  assumes "isPlayingSequence s"
  shows "playActionSequence globalThis sequenceOrName clock s =
     Returned (s\<lparr>log := log s @
        [case (case sequenceOrName of ByName n \<Rightarrow> actionLibrary n | ByObject q \<Rightarrow> q) of
           None \<Rightarrow> UnknownAction sequenceOrName
         | Some sq \<Rightarrow> SequenceInProgress]\<rparr>)"
  using assms
  by (simp add: playActionSequence_def Let_def addLog_def split: option.splits)

theorem playActionSequence_while_playing_witness:
  "isPlayingSequence (initial_state\<lparr>isPlayingSequence := True\<rparr>) \<and>
   playActionSequence no_globals (ByName ''wave'') [0, 16] (initial_state\<lparr>isPlayingSequence := True\<rparr>)
     = Returned (initial_state\<lparr>isPlayingSequence := True, log := [SequenceInProgress]\<rparr>)"
proof -
  have p: "isPlayingSequence (initial_state\<lparr>isPlayingSequence := True\<rparr>)" by simp
  have k: "actionLibrary ''wave'' \<noteq> None" by (simp add: actionLibrary_def)
  from playActionSequence_while_playing[OF p, of no_globals "ByName ''wave''" "[0, 16]"] k p
  show ?thesis by (auto simp: initial_state_def)
qed

text \<open>
  C7 fails on the code. Line 1039, \<^verbatim>\<open>currentSequence.value = sequenceName\<close>, reads an
  identifier that is declared nowhere (the parameter is \<^verbatim>\<open>sequenceOrName\<close>), after the
  playing flag is set and before the \<^verbatim>\<open>try\<close> block. Called with the library name
  \<^verbatim>\<open>nod\<close> while nothing is playing, on a page without such a global, the function
  throws a ReferenceError: no keyframe is processed and the playing flag stays set.
\<close>

theorem playActionSequence_known_name_throws:
  "actionLibrary ''nod'' \<noteq> None \<and> \<not> isPlayingSequence initial_state \<and>
   playActionSequence no_globals (ByName ''nod'') [0, 16, 32] initial_state
     = Threw ReferenceError (initial_state\<lparr>isPlayingSequence := True\<rparr>)"
  by (simp add: playActionSequence_def actionLibrary_def no_globals_def initial_state_def Let_def)


section \<open>Properties of the Cartesian Path Planner\<close>


lemma fk_tool:
  "computeForwardPositions \<lparr>joint1 = Some 0, joint2 = Some 0, joint3 = Some 0, joint4 = Some 0,
        joint5 = Some 0, joint6 = Some t\<rparr> =
     [\<lparr>pt_label = Elbow, pt_x = 0, pt_y = 0, pt_z = 0.1482, pt_radial = 0\<rparr>,
      \<lparr>pt_label = Wrist, pt_x = 0, pt_y = 0, pt_z = 0.1932, pt_radial = 0\<rparr>,
      \<lparr>pt_label = EndEffector, pt_x = 0, pt_y = 0, pt_z = 0.2864, pt_radial = 0\<rparr>]"
  unfolding computeForwardPositions_def
  by (simp add: Let_def nullish_or_zero_def LINK_LENGTHS_M_def forward_loop_yaw0
           del: forward_loop.simps(2))

lemma check_tool:
  assumes "- 180 \<le> t" "t \<le> 180"
  shows "quickCollisionCheck \<lparr>joint1 = Some 0, joint2 = Some 0, joint3 = Some 0, joint4 = Some 0,
        joint5 = Some 0, joint6 = Some t\<rparr> = (False, [])"
proof -
  have geo: "geometryCollisionCheck \<lparr>joint1 = Some 0, joint2 = Some 0, joint3 = Some 0,
        joint4 = Some 0, joint5 = Some 0, joint6 = Some t\<rparr> = (False, [])"
    unfolding geometryCollisionCheck_def fk_tool
    by (simp add: check_point_def Let_def LINK_LENGTHS_M_def BASE_CLEARANCE_M_def)
  have ent: "check_entries 0 [Some 0, Some 0, Some 0, Some 0, Some 0, Some t] (False, [])
      = (False, [])"
    using assms by (simp add: JOINT_LIMITS_DEG_def num_lt_def num_gt_def)
  show ?thesis
    unfolding quickCollisionCheck_def geo
    by (simp add: ent Let_def num_add_def num_abs_def num_lt_def num_gt_def
          SHOULDER_ELBOW_MIN_def SHOULDER_ELBOW_MAX_def ELBOW_FORWARD_MAX_def
          WRIST_COUPLED_LIMIT_def del: check_entries.simps)
qed

lemma getSafeAngles_tool:
  assumes "- 180 \<le> t" "t \<le> 180"
  shows "getSafeAngles (Some \<lparr>joint1 = Some 0, joint2 = Some 0, joint3 = Some 0, joint4 = Some 0,
        joint5 = Some 0, joint6 = Some t\<rparr>) src =
     Inr (Some \<lparr>deg = \<lparr>joint1 = Some 0, joint2 = Some 0, joint3 = Some 0, joint4 = Some 0,
        joint5 = Some 0, joint6 = Some t\<rparr>, rad = [0, 0, 0, 0, 0, t * DEG2RAD]\<rparr>, [])"
proof -
  have w: "within_joint_limits [0, 0, 0, 0, 0, t]"
    unfolding within_joint_limits6 using assms by simp
  have e: "enforceJointSafety [0, 0, 0, 0, 0, t] = Inr [0, 0, 0, 0, 0, t]"
    by (rule enforce6_fixed[OF w]) simp_all
  have m: "mapAnglesArrayToObject [0, 0, 0, 0, 0, t] = \<lparr>joint1 = Some 0, joint2 = Some 0,
      joint3 = Some 0, joint4 = Some 0, joint5 = Some 0, joint6 = Some t\<rparr>"
    by (simp add: mapAnglesArrayToObject_def array_read_def)
  show ?thesis
    by (simp add: getSafeAngles_def mapAnglesObjectToArray_def nullish_or_zero_def e m
          check_tool[OF assms] Let_def)
qed

lemma sampleLinePath_nat:
  "sampleLinePath start goal (real N) = map (sample_point start goal (real N)) [0..<Suc N]"
  unfolding sampleLinePath_def using sample_loop_eq[of 0 N start goal "[]"] by simp

lemma path15:
  "sampleLinePath \<lparr>cx = 0.18, cy = 0, cz = 0.3\<rparr> \<lparr>cx = 1, cy = 0, cz = 0\<rparr> 15 =
     Some \<lparr>cx = 0.18, cy = 0, cz = 0.3\<rparr> #
     Some \<lparr>cx = 0.18 + 0.82 / 15, cy = 0, cz = 0.3 - 0.3 / 15\<rparr> #
     map (sample_point \<lparr>cx = 0.18, cy = 0, cz = 0.3\<rparr> \<lparr>cx = 1, cy = 0, cz = 0\<rparr> 15) [2..<16]"
proof -
  have u: "[0..<Suc 15] = 0 # 1 # [2..<16]"
    by (simp add: upt_conv_Cons del: upt_Suc)
  have "sampleLinePath \<lparr>cx = 0.18, cy = 0, cz = 0.3\<rparr> \<lparr>cx = 1, cy = 0, cz = 0\<rparr> (real 15) =
      map (sample_point \<lparr>cx = 0.18, cy = 0, cz = 0.3\<rparr> \<lparr>cx = 1, cy = 0, cz = 0\<rparr> (real 15))
        (0 # 1 # [2..<16])"
    unfolding sampleLinePath_nat u ..
  then show ?thesis by (simp add: sample_point_def Let_def del: upt_Suc)
qed

text \<open>
  C3 fails on the code in one point. When the service fails, line 1666 logs
  \<^verbatim>\<open>'...${i}IKfailed: ' + e.message\<close>, a text in single quotes: the index is not
  interpolated. A plan that fails at sample 0 and a plan that fails at sample 1 end with the
  same log; only the trace of requests tells them apart.
\<close>

theorem moveToTarget_ik_failure_log:
  "moveToTarget 1 0 0 15 unreachable_everywhere clock initial_state =
     Returned (initial_state
       \<lparr>log := [PlanningPath 0, GeneratedPoints 16, PathPointIKFailed (Message ''unreachable'')],
        ikCalls := [Some \<lparr>cx = 0.18, cy = 0, cz = 0.3\<rparr>]\<rparr>) \<and>
   moveToTarget 1 0 0 15 reachable_only_at_start clock initial_state =
     Returned (initial_state
       \<lparr>log := [PlanningPath 0, GeneratedPoints 16, PathPointIKFailed (Message ''unreachable'')],
        ikCalls := [Some \<lparr>cx = 0.18, cy = 0, cz = 0.3\<rparr>,
                    Some \<lparr>cx = 0.18 + 0.82 / 15, cy = 0, cz = 0.3 - 0.3 / 15\<rparr>]\<rparr>)"
proof -
  have ep: "endEffectorPos (addLog (PlanningPath 0) initial_state) = \<lparr>cx = 0.18, cy = 0, cz = 0.3\<rparr>"
    by (simp add: addLog_def initial_state_def)
  have home: "enforceJointSafety (mapAnglesObjectToArray (Some home_angles)) = Inr [0,0,0,0,0,0]"
    unfolding mapAnglesObjectToArray_def home_angles_def
    by (simp add: nullish_or_zero_def enforce6_fixed within_joint_limits6)
  have hm: "mapAnglesArrayToObject [0,0,0,0,0,0] = \<lparr>joint1 = Some 0, joint2 = Some 0,
      joint3 = Some 0, joint4 = Some 0, joint5 = Some 0, joint6 = Some 0\<rparr>"
    by (simp add: mapAnglesArrayToObject_def array_read_def)
  have ok: "quickCollisionCheck \<lparr>joint1 = Some 0, joint2 = Some 0,
      joint3 = Some 0, joint4 = Some 0, joint5 = Some 0, joint6 = Some 0\<rparr> = (False, [])"
    by (rule check_tool) simp_all
  have a: "moveToTarget 1 0 0 15 unreachable_everywhere clock initial_state =
     Returned (initial_state
       \<lparr>log := [PlanningPath 0, GeneratedPoints 16, PathPointIKFailed (Message ''unreachable'')],
        ikCalls := [Some \<lparr>cx = 0.18, cy = 0, cz = 0.3\<rparr>]\<rparr>)"
    unfolding moveToTarget_def Let_def ep path15
    by (simp add: callIK_def unreachable_everywhere_def addLog_def initial_state_def Let_def
          del: upt_Suc)
  have b: "moveToTarget 1 0 0 15 reachable_only_at_start clock initial_state =
     Returned (initial_state
       \<lparr>log := [PlanningPath 0, GeneratedPoints 16, PathPointIKFailed (Message ''unreachable'')],
        ikCalls := [Some \<lparr>cx = 0.18, cy = 0, cz = 0.3\<rparr>,
                    Some \<lparr>cx = 0.18 + 0.82 / 15, cy = 0, cz = 0.3 - 0.3 / 15\<rparr>]\<rparr>)"
    unfolding moveToTarget_def Let_def ep path15
    by (simp add: callIK_def reachable_only_at_start_def addLog_def addLogs_def initial_state_def
          Let_def home hm ok del: upt_Suc)
  from a b show ?thesis by blast
qed



lemma callIK_calls: "ikCalls (snd (callIK ik p s)) = ikCalls s @ [p]"
  and callIK_keeps: "targetAngles (snd (callIK ik p s)) = targetAngles s"
    "targetEndEffectorPos (snd (callIK ik p s)) = targetEndEffectorPos s"
    "sent (snd (callIK ik p s)) = sent s" "rafQueue (snd (callIK ik p s)) = rafQueue s"
  by (auto simp: callIK_def Let_def split: ik_reply.splits sum.splits option.splits)

lemma callIK_passes:
  "sample_passes ik p = (\<exists>a. fst (callIK ik p s) = Inr a \<and> \<not> fst (quickCollisionCheck a))"
  by (auto simp: callIK_def sample_passes_def Let_def split: ik_reply.splits sum.splits option.splits)

lemma plan_loop_first_failure:
  assumes "k < length pts" "\<not> sample_passes ik (pts ! k)" "\<forall>j<k. sample_passes ik (pts ! j)"
  shows "\<exists>s'. plan_loop ik i pts jp s = (Aborted, s') \<and>
     ikCalls s' = ikCalls s @ take (Suc k) pts \<and>
     targetAngles s' = targetAngles s \<and> targetEndEffectorPos s' = targetEndEffectorPos s \<and>
     sent s' = sent s \<and> rafQueue s' = rafQueue s \<and>
     (last (log s') = PathPointCollision (i + k) \<or> (\<exists>e. last (log s') = PathPointIKFailed e))"
  using assms
proof (induction pts arbitrary: k i jp s)
  case Nil
  then show ?case by simp
next
  case (Cons p pts)
  obtain r s1 where c: "callIK ik p s = (r, s1)" by (cases "callIK ik p s")
  have s1: "ikCalls s1 = ikCalls s @ [p]" "targetAngles s1 = targetAngles s"
    "targetEndEffectorPos s1 = targetEndEffectorPos s" "sent s1 = sent s" "rafQueue s1 = rafQueue s"
    using callIK_calls[of ik p s] callIK_keeps[of ik p s] unfolding c by simp_all
  show ?case
  proof (cases k)
    case 0
    with Cons.prems have "\<not> sample_passes ik p" by simp
    then have "\<not> (\<exists>a. r = Inr a \<and> \<not> fst (quickCollisionCheck a))"
      using callIK_passes[of ik p s] unfolding c by simp
    then show ?thesis using 0 s1
      by (cases r) (auto simp: c Let_def addLog_def addLogs_def)
  next
    case (Suc k')
    with Cons.prems have "sample_passes ik p" by auto
    then obtain a where a: "r = Inr a" "\<not> fst (quickCollisionCheck a)"
      using callIK_passes[of ik p s] unfolding c by auto
    let ?s2 = "addLogs (snd (quickCollisionCheck a)) s1"
    have step: "plan_loop ik i (p # pts) jp s = plan_loop ik (Suc i) pts (jp @ [a]) ?s2"
      using a by (simp add: c Let_def)
    from Cons.prems Suc have k': "k' < length pts" "\<not> sample_passes ik (pts ! k')"
      "\<forall>j<k'. sample_passes ik (pts ! j)" by auto
    from Cons.IH[OF k', of "Suc i" "jp @ [a]" ?s2] obtain s' where
      "plan_loop ik (Suc i) pts (jp @ [a]) ?s2 = (Aborted, s')"
      "ikCalls s' = ikCalls ?s2 @ take (Suc k') pts"
      "targetAngles s' = targetAngles ?s2" "targetEndEffectorPos s' = targetEndEffectorPos ?s2"
      "sent s' = sent ?s2" "rafQueue s' = rafQueue ?s2"
      "last (log s') = PathPointCollision (Suc i + k') \<or> (\<exists>e. last (log s') = PathPointIKFailed e)"
      by blast
    then show ?thesis using s1 Suc unfolding step by (simp add: addLogs_def)
  qed
qed

text \<open>
  The rest of C3 holds: at the first sample that the service does not solve or that fails the
  collision check, \<^verbatim>\<open>moveToTarget\<close> returns; the service has been asked for the samples up
  to that one and no further, and the commanded joints, the target position, the hardware
  dispatches and the registered callbacks are as before. The last log entry is the collision
  notice with the sample's index, or the notice of the failed service call.
\<close>

lemma moveToTarget_abort:
  assumes "k < length (sampleLinePath (endEffectorPos s) \<lparr>cx = x, cy = y, cz = z\<rparr> samples)"
    and "\<not> sample_passes ik (sampleLinePath (endEffectorPos s) \<lparr>cx = x, cy = y, cz = z\<rparr> samples ! k)"
    and "\<forall>j<k. sample_passes ik (sampleLinePath (endEffectorPos s) \<lparr>cx = x, cy = y, cz = z\<rparr> samples ! j)"
  shows "\<exists>s'. moveToTarget x y z samples ik clock s = Returned s' \<and>
     ikCalls s' = ikCalls s @ take (Suc k) (sampleLinePath (endEffectorPos s) \<lparr>cx = x, cy = y, cz = z\<rparr> samples) \<and>
     targetAngles s' = targetAngles s \<and> targetEndEffectorPos s' = targetEndEffectorPos s \<and>
     sent s' = sent s \<and> rafQueue s' = rafQueue s \<and>
     (last (log s') = PathPointCollision k \<or> (\<exists>e. last (log s') = PathPointIKFailed e))"
proof -
  let ?path = "sampleLinePath (endEffectorPos s) \<lparr>cx = x, cy = y, cz = z\<rparr> samples"
  let ?s2 = "addLog (GeneratedPoints (length ?path)) (addLog (PlanningPath z) s)"
  from plan_loop_first_failure[OF assms, of 0 "[]" ?s2] obtain s' where
    "plan_loop ik 0 ?path [] ?s2 = (Aborted, s')"
    "ikCalls s' = ikCalls ?s2 @ take (Suc k) ?path"
    "targetAngles s' = targetAngles ?s2" "targetEndEffectorPos s' = targetEndEffectorPos ?s2"
    "sent s' = sent ?s2" "rafQueue s' = rafQueue ?s2"
    "last (log s') = PathPointCollision (0 + k) \<or> (\<exists>e. last (log s') = PathPointIKFailed e)"
    by blast
  then show ?thesis by (simp add: moveToTarget_def Let_def addLog_def)
qed


section \<open>Properties of the Trajectory Executor\<close>


lemma interpolate_value:
  assumes "interpolate tr now s = Returned s'"
  shows "trajectory_value tr now = Some (targetAngles s')"
  using assms
  by (auto simp: interpolate_def trajectory_value_def easeInOutCubic_def Let_def sendCommand_def
        split: option.splits if_splits command.splits)

lemma run_callbacks_append:
  "run_callbacks (q @ [tr]) now s =
     (case run_callbacks q now s of Returned s1 \<Rightarrow> interpolate tr now s1 | other \<Rightarrow> other)"
  by (induction q arbitrary: s) (auto split: outcome.splits)

lemma lerp_zero: "length starts \<le> length goals \<Longrightarrow> lerp_angles starts goals 0 = Some starts"
proof -
  assume l: "length starts \<le> length goals"
  have "(\<lambda>(start::real, goal::real). start + (goal - start) * 0) = fst" by (simp add: fun_eq_iff)
  then have "map (\<lambda>(start, goal). start + (goal - start) * 0) (zip starts goals) = starts"
    using l by (simp only: map_fst_zip_take) simp
  with l show ?thesis by (simp only: lerp_angles_def if_True)
qed

lemma getSafeAngles_rad_length:
  assumes "getSafeAngles angs src = Inr (Some safe, msgs)"
  shows "length (rad safe) = 6"
proof -
  have "length (mapAnglesObjectToArray angs) = 6"
    by (simp add: mapAnglesObjectToArray_def split: option.splits)
  from list6[OF this] obtain a b c d e f
    where raw: "mapAnglesObjectToArray angs = [a, b, c, d, e, f]" by blast
  from enforce6_props[of a b c d e f] obtain a' b' c' d' e' f'
    where "enforceJointSafety (mapAnglesObjectToArray angs) = Inr [a', b', c', d', e', f']"
    unfolding raw by blast
  with assms show ?thesis
    by (auto simp: getSafeAngles_def Let_def split: if_splits)
qed

text \<open>
  C9 amended. A run started by \<^verbatim>\<open>updateRobotJoints\<close> with a positive duration takes the
  current commanded vector as its start and is registered behind the runs already in
  flight, which all stay registered: nothing is cancelled. In the next animation frame its
  callback runs last, so the commanded vector at the end of that frame is the new run's
  interpolated value.
\<close>

theorem updateRobotJoints_keeps_old_runs:
  assumes safe: "getSafeAngles angs ManualControl = Inr (Some safe, msgs)"
    and dur: "0 < dur"
    and six: "length (targetAngles s) \<le> 6"
  shows "\<exists>s'. updateRobotJoints angs dur now s = Returned s' \<and>
     targetAngles s' = targetAngles s \<and> sent s' = sent s \<and>
     rafQueue s' = rafQueue s @
        [\<lparr>startAngles = targetAngles s, goalAngles = rad safe, startTime = now, duration = dur\<rparr>] \<and>
     (\<forall>later s''. animation_frame later s' = Returned s'' \<longrightarrow>
        trajectory_value
          \<lparr>startAngles = targetAngles s, goalAngles = rad safe, startTime = now, duration = dur\<rparr>
          later = Some (targetAngles s''))"
proof -
  let ?tr = "\<lparr>startAngles = targetAngles s, goalAngles = rad safe, startTime = now, duration = dur\<rparr>"
  let ?s' = "(addLogs msgs s)\<lparr>targetAngles := targetAngles s, rafQueue := rafQueue s @ [?tr]\<rparr>"
  have len: "length (targetAngles s) \<le> length (rad safe)"
    using six getSafeAngles_rad_length[OF safe] by simp
  have p: "progress_at 0 dur = Some 0" using dur by (simp add: progress_at_def)
  have run: "updateRobotJoints angs dur now s = Returned ?s'"
    using len by (simp add: updateRobotJoints_def safe interpolate_def p lerp_zero Let_def addLogs_def)
  have frame: "trajectory_value ?tr later = Some (targetAngles s'')"
    if "animation_frame later ?s' = Returned s''" for later s''
  proof -
    from that obtain s1 where "interpolate ?tr later s1 = Returned s''"
      unfolding animation_frame_def
      by (auto simp: run_callbacks_append split: outcome.splits)
    then show ?thesis by (rule interpolate_value)
  qed
  show ?thesis
    using run frame by (intro exI[of _ ?s']) (simp add: addLogs_def)
qed


lemma safe_left:
  "getSafeAngles (Some tool_left) ManualControl =
     Inr (Some \<lparr>deg = tool_left, rad = [0, 0, 0, 0, 0, 90 * DEG2RAD]\<rparr>, [])"
  unfolding tool_left_def by (rule getSafeAngles_tool) simp_all

lemma safe_right:
  "getSafeAngles (Some tool_right) ManualControl =
     Inr (Some \<lparr>deg = tool_right, rad = [0, 0, 0, 0, 0, - 90 * DEG2RAD]\<rparr>, [])"
  unfolding tool_right_def using getSafeAngles_tool[of "- 90" ManualControl] by simp

text \<open>
  C9 as stated fails: the old run is neither stopped nor is its goal discarded. A 1500 ms
  run towards \<open>tool_left\<close> is overtaken at 800 ms by a 100 ms run towards \<open>tool_right\<close>;
  the new run completes at 900 ms, the old one keeps interpolating, and at 1500 ms it writes
  its own goal and dispatches once more.
\<close>

theorem overlapping_runs_end_at_old_goal:
  "overlapping_runs =
     Returned (initial_state
       \<lparr>targetAngles := [0, 0, 0, 0, 0, 90 * DEG2RAD],
        sent := [SetTarget [0.1, - 0.2, 0.3], SetTarget [0.1, - 0.2, 0.3]]\<rparr>) \<and>
   [0, 0, 0, 0, 0, 90 * DEG2RAD] \<noteq> [0, 0, 0, 0, 0, - 90 * DEG2RAD]"
proof -
  let ?tr1 = "\<lparr>startAngles = [0, 0, 0, 0, 0, 0], goalAngles = [0, 0, 0, 0, 0, 90 * DEG2RAD],
      startTime = 0, duration = 1500\<rparr>"
  let ?mid = "[0, 0, 0, 0, 0, 90 * DEG2RAD * 0.5]"
  let ?tr2 = "\<lparr>startAngles = ?mid, goalAngles = [0, 0, 0, 0, 0, - 90 * DEG2RAD],
      startTime = 800, duration = 100\<rparr>"
  let ?s1 = "initial_state\<lparr>rafQueue := [?tr1]\<rparr>"
  let ?s2 = "initial_state\<lparr>targetAngles := ?mid, rafQueue := [?tr1]\<rparr>"
  let ?s3 = "initial_state\<lparr>targetAngles := ?mid, rafQueue := [?tr1, ?tr2]\<rparr>"
  let ?s4 = "initial_state\<lparr>targetAngles := [0, 0, 0, 0, 0, - 90 * DEG2RAD],
      sent := [SetTarget [0.1, - 0.2, 0.3]], rafQueue := [?tr1]\<rparr>"
  let ?s5 = "initial_state\<lparr>targetAngles := [0, 0, 0, 0, 0, 90 * DEG2RAD],
      sent := [SetTarget [0.1, - 0.2, 0.3], SetTarget [0.1, - 0.2, 0.3]]\<rparr>"
  have 1: "updateRobotJoints (Some tool_left) 1500 0 initial_state = Returned ?s1"
    by (simp add: updateRobotJoints_def safe_left interpolate_def progress_at_def lerp_angles_def
          addLogs_def initial_state_def Let_def)
  have 2: "animation_frame 750 ?s1 = Returned ?s2"
    by (simp add: animation_frame_def interpolate_def progress_at_def lerp_angles_def
          initial_state_def Let_def)
  have 3: "updateRobotJoints (Some tool_right) 100 800 ?s2 = Returned ?s3"
    by (simp add: updateRobotJoints_def safe_right interpolate_def progress_at_def lerp_angles_def
          addLogs_def initial_state_def Let_def)
  have 4: "animation_frame 900 ?s3 = Returned ?s4"
    by (simp add: animation_frame_def interpolate_def progress_at_def lerp_angles_def
          sendCommand_def initial_state_def Let_def)
  have 5: "animation_frame 1500 ?s4 = Returned ?s5"
    by (simp add: animation_frame_def interpolate_def progress_at_def lerp_angles_def
          sendCommand_def initial_state_def Let_def)
  have "overlapping_runs = Returned ?s5"
    unfolding overlapping_runs_def by (simp only: 1 2 3 4 5 and_then_def outcome.case)
  moreover have "[0, 0, 0, 0, 0, 90 * DEG2RAD] \<noteq> [0, 0, 0, 0, 0, - 90 * DEG2RAD]"
    by (simp add: DEG2RAD_def)
  ultimately show ?thesis by blast
qed

theorem updateRobotJoints_keeps_old_runs_witness:
  "getSafeAngles (Some tool_right) ManualControl =
     Inr (Some \<lparr>deg = tool_right, rad = [0, 0, 0, 0, 0, - 90 * DEG2RAD]\<rparr>, []) \<and>
   (0::real) < 100 \<and>
   length (targetAngles (initial_state\<lparr>targetAngles := [0, 0, 0, 0, 0, 90 * DEG2RAD * 0.5],
      rafQueue := [\<lparr>startAngles = [0, 0, 0, 0, 0, 0], goalAngles = [0, 0, 0, 0, 0, 90 * DEG2RAD],
      startTime = 0, duration = 1500\<rparr>]\<rparr>)) \<le> 6 \<and>
   updateRobotJoints (Some tool_right) 100 800
        (initial_state\<lparr>targetAngles := [0, 0, 0, 0, 0, 90 * DEG2RAD * 0.5],
           rafQueue := [\<lparr>startAngles = [0, 0, 0, 0, 0, 0], goalAngles = [0, 0, 0, 0, 0, 90 * DEG2RAD],
              startTime = 0, duration = 1500\<rparr>]\<rparr>) =
     Returned (initial_state\<lparr>targetAngles := [0, 0, 0, 0, 0, 90 * DEG2RAD * 0.5],
        rafQueue :=
        [\<lparr>startAngles = [0, 0, 0, 0, 0, 0], goalAngles = [0, 0, 0, 0, 0, 90 * DEG2RAD],
           startTime = 0, duration = 1500\<rparr>,
         \<lparr>startAngles = [0, 0, 0, 0, 0, 90 * DEG2RAD * 0.5],
           goalAngles = [0, 0, 0, 0, 0, - 90 * DEG2RAD], startTime = 800, duration = 100\<rparr>]\<rparr>) \<and>
   animation_frame 900
     (initial_state\<lparr>targetAngles := [0, 0, 0, 0, 0, 90 * DEG2RAD * 0.5],
        rafQueue :=
        [\<lparr>startAngles = [0, 0, 0, 0, 0, 0], goalAngles = [0, 0, 0, 0, 0, 90 * DEG2RAD],
           startTime = 0, duration = 1500\<rparr>,
         \<lparr>startAngles = [0, 0, 0, 0, 0, 90 * DEG2RAD * 0.5],
           goalAngles = [0, 0, 0, 0, 0, - 90 * DEG2RAD], startTime = 800, duration = 100\<rparr>]\<rparr>) =
     Returned (initial_state\<lparr>targetAngles := [0, 0, 0, 0, 0, - 90 * DEG2RAD],
        sent := [SetTarget [0.1, - 0.2, 0.3]],
        rafQueue := [\<lparr>startAngles = [0, 0, 0, 0, 0, 0],
           goalAngles = [0, 0, 0, 0, 0, 90 * DEG2RAD], startTime = 0, duration = 1500\<rparr>]\<rparr>) \<and>
   trajectory_value
     \<lparr>startAngles = [0, 0, 0, 0, 0, 90 * DEG2RAD * 0.5],
      goalAngles = [0, 0, 0, 0, 0, - 90 * DEG2RAD], startTime = 800, duration = 100\<rparr> 900
     = Some [0, 0, 0, 0, 0, - 90 * DEG2RAD]"
proof -
  let ?tr1 = "\<lparr>startAngles = [0, 0, 0, 0, 0, 0], goalAngles = [0, 0, 0, 0, 0, 90 * DEG2RAD],
      startTime = 0, duration = 1500\<rparr>"
  let ?mid = "[0, 0, 0, 0, 0, 90 * DEG2RAD * 0.5]"
  let ?tr2 = "\<lparr>startAngles = ?mid, goalAngles = [0, 0, 0, 0, 0, - 90 * DEG2RAD],
      startTime = 800, duration = 100\<rparr>"
  let ?s = "initial_state\<lparr>targetAngles := ?mid, rafQueue := [?tr1]\<rparr>"
  let ?s3 = "initial_state\<lparr>targetAngles := ?mid, rafQueue := [?tr1, ?tr2]\<rparr>"
  let ?s4 = "initial_state\<lparr>targetAngles := [0, 0, 0, 0, 0, - 90 * DEG2RAD],
      sent := [SetTarget [0.1, - 0.2, 0.3]], rafQueue := [?tr1]\<rparr>"
  have a: "getSafeAngles (Some tool_right) ManualControl =
     Inr (Some \<lparr>deg = tool_right, rad = [0, 0, 0, 0, 0, - 90 * DEG2RAD]\<rparr>, [])"
    by (rule safe_right)
  have b: "(0::real) < 100" by simp
  have c: "length (targetAngles ?s) \<le> 6"
    by simp
  have frame: "animation_frame 900 ?s3 = Returned ?s4"
    by (simp add: animation_frame_def interpolate_def progress_at_def lerp_angles_def
          sendCommand_def initial_state_def Let_def)
  from updateRobotJoints_keeps_old_runs[OF a b c, of 800] obtain s' where
    run: "updateRobotJoints (Some tool_right) 100 800 ?s = Returned s'"
    and keep: "targetAngles s' = targetAngles ?s" "sent s' = sent ?s"
    and queue: "rafQueue s' = rafQueue ?s @ [\<lparr>startAngles = targetAngles ?s,
        goalAngles = rad \<lparr>deg = tool_right, rad = [0, 0, 0, 0, 0, - 90 * DEG2RAD]\<rparr>,
        startTime = 800, duration = 100\<rparr>]"
    and later: "\<And>later s''. animation_frame later s' = Returned s'' \<Longrightarrow>
        trajectory_value \<lparr>startAngles = targetAngles ?s,
          goalAngles = rad \<lparr>deg = tool_right, rad = [0, 0, 0, 0, 0, - 90 * DEG2RAD]\<rparr>,
          startTime = 800, duration = 100\<rparr> later = Some (targetAngles s'')"
    by blast
  have "updateRobotJoints (Some tool_right) 100 800 ?s = Returned ?s3"
    by (simp add: updateRobotJoints_def safe_right interpolate_def progress_at_def lerp_angles_def
          addLogs_def initial_state_def Let_def)
  with run have s': "s' = ?s3" by simp
  from later[of 900 ?s4] frame have
    "trajectory_value ?tr2 900 = Some [0, 0, 0, 0, 0, - 90 * DEG2RAD]"
    unfolding s' by simp
  with a b c run frame show ?thesis unfolding s' by simp
qed


end
